theory Spec2Isabelle
  imports Complex_Main
begin

section \<open>Data containers (data_containers.py)\<close>

text \<open>
  Python floats are idealised as real numbers. Exceptions are values of type \<open>error\<close>,
  named after the Python exception class that is raised, with its message (for an
  \<open>AttributeError\<close>, the name of the missing attribute).
\<close>

datatype error = ValueError string | AttributeError string | TypeError string

text \<open>The three coordinate dataclasses. Each is a plain triple of floats.\<close>

datatype Geodetic = Geodetic (lat: real) (lon: real) (alt: real)

datatype ECEF = ECEF (ecef_x: real) (ecef_y: real) (ecef_z: real)

datatype ENU = ENU (enu_e: real) (enu_n: real) (enu_u: real)

text \<open>
  Attribute lookup on a \<open>Geodetic\<close> instance: the dataclass declares exactly the data
  attributes \<open>lat\<close>, \<open>lon\<close> and \<open>alt\<close>; reading any other data attribute raises
  \<open>AttributeError\<close>.
\<close>

definition Geodetic_getattr :: "Geodetic \<Rightarrow> string \<Rightarrow> error + real" where
  "Geodetic_getattr self a =
     (if a = ''lat'' then Inr (lat self)
      else if a = ''lon'' then Inr (lon self)
      else if a = ''alt'' then Inr (alt self)
      else Inl (AttributeError a))"

text \<open>
  \<open>Geodetic.as_array\<close>: \<open>return np.array([self.e, self.n, self.u])\<close>. The list
  elements are evaluated left to right; the first failing lookup raises.
\<close>

definition Geodetic_as_array :: "Geodetic \<Rightarrow> error + real list" where
  "Geodetic_as_array self =
     (case Geodetic_getattr self ''e'' of
        Inl err \<Rightarrow> Inl err
      | Inr e \<Rightarrow>
          (case Geodetic_getattr self ''n'' of
             Inl err \<Rightarrow> Inl err
           | Inr n \<Rightarrow>
               (case Geodetic_getattr self ''u'' of
                  Inl err \<Rightarrow> Inl err
                | Inr u \<Rightarrow> Inr [e, n, u])))"

text \<open>\<open>ENU.__sub__\<close>, \<open>ENU.__add__\<close> and \<open>ENU.as_array\<close> (both operands of type ENU).\<close>

definition ENU_sub :: "ENU \<Rightarrow> ENU \<Rightarrow> ENU" where
  "ENU_sub self other =
     ENU (enu_e self - enu_e other) (enu_n self - enu_n other) (enu_u self - enu_u other)"

definition ENU_add :: "ENU \<Rightarrow> ENU \<Rightarrow> ENU" where
  "ENU_add self other =
     ENU (enu_e self + enu_e other) (enu_n self + enu_n other) (enu_u self + enu_u other)"

definition ENU_as_array :: "ENU \<Rightarrow> real list" where
  "ENU_as_array self = [enu_e self, enu_n self, enu_u self]"

record Telescope =
  name :: string
  geodetic :: Geodetic
  focalplane_height :: real
  ecef :: "ECEF option"
  enu :: "ENU option"

text \<open>
  A trajectory. The \<open>(N, 3)\<close> arrays \<open>enu\<close> and \<open>geodetic\<close> are lists of rows. Fields whose
  names are shared with \<open>Telescope\<close> or \<open>Site\<close> carry the prefix \<open>traj_\<close>.
\<close>

record DroneTrajectory =
  traj_enu :: "(real \<times> real \<times> real) list"
  yaw :: "real list"
  pitch :: "real list"
  npoints :: int
  arccenter :: "ENU option"
  traj_geodetic :: "(real \<times> real \<times> real) list option"
  traj_poi :: "Geodetic option"
  traj_landing_site :: "Geodetic option"
  curveradius :: "real option"
  plot_boresight :: "bool option"

text \<open>
  A site. The dictionary \<open>telescopes\<close> is kept as an association list in insertion
  order, which is the order \<open>telescopes.values()\<close> iterates in.
\<close>

record Site =
  telescopes :: "(string \<times> Telescope) list"
  origin :: "Geodetic option"
  landing_site :: "Geodetic option"

section \<open>External libraries\<close>

text \<open>
  The coordinate conversions come from the library pymap3d, which is not part of the
  repository. Its numerical formulas are a parameter of the model: a record of six
  functions, with the argument order of the calls in the source, giving the value a
  call returns when the library accepts its arguments.
\<close>

record pymap3d =
  geodetic2enu :: "real \<Rightarrow> real \<Rightarrow> real \<Rightarrow> real \<Rightarrow> real \<Rightarrow> real \<Rightarrow> real \<times> real \<times> real"
  enu2geodetic :: "real \<Rightarrow> real \<Rightarrow> real \<Rightarrow> real \<Rightarrow> real \<Rightarrow> real \<Rightarrow> real \<times> real \<times> real"
  geodetic2ecef :: "real \<Rightarrow> real \<Rightarrow> real \<Rightarrow> real \<times> real \<times> real"
  ecef2geodetic :: "real \<Rightarrow> real \<Rightarrow> real \<Rightarrow> real \<times> real \<times> real"
  enu2aer :: "real \<Rightarrow> real \<Rightarrow> real \<Rightarrow> real \<times> real \<times> real"
  aer2enu :: "real \<Rightarrow> real \<Rightarrow> real \<Rightarrow> real \<times> real \<times> real"

text \<open>
  The library checks some arguments before it computes, and raises \<open>ValueError\<close> when
  a check fails. A call of the source is one of the functions below: the check, then
  the formula.
  \<^item> \<open>geodetic2ecef\<close> refuses a latitude outside \<open>[-90, 90]\<close> degrees.
  \<^item> \<open>geodetic2enu\<close> converts the point and then the origin with \<open>geodetic2ecef\<close>, so it
    refuses a point or an origin whose latitude is outside \<open>[-90, 90]\<close>.
  \<^item> \<open>enu2geodetic\<close> converts the origin with \<open>geodetic2ecef\<close>, so it refuses an origin
    whose latitude is outside \<open>[-90, 90]\<close>.
  \<^item> \<open>aer2enu\<close> refuses a negative slant range.
  \<^item> \<open>enu2aer\<close> and \<open>ecef2geodetic\<close> check nothing; the source's calls of them are the
    record's functions themselves.
  On arrays the library checks the arguments once and computes element by element: a
  call with a scalar origin or a scalar range and array coordinates is the check
  followed by a \<open>map\<close> over the rows, and the check fails even when the arrays are empty.
\<close>

definition pm_geodetic2ecef :: "pymap3d \<Rightarrow> real \<Rightarrow> real \<Rightarrow> real \<Rightarrow> error + real \<times> real \<times> real" where
  "pm_geodetic2ecef pm la lo al =
     (if abs la > 90 then Inl (ValueError ''-pi/2 <= latitude <= pi/2'')
      else Inr (geodetic2ecef pm la lo al))"

definition pm_geodetic2enu ::
  "pymap3d \<Rightarrow> real \<Rightarrow> real \<Rightarrow> real \<Rightarrow> real \<Rightarrow> real \<Rightarrow> real \<Rightarrow> error + real \<times> real \<times> real" where
  "pm_geodetic2enu pm la lo h la0 lo0 h0 =
     (if abs la > 90 then Inl (ValueError ''-pi/2 <= latitude <= pi/2'')
      else if abs la0 > 90 then Inl (ValueError ''-pi/2 <= latitude <= pi/2'')
      else Inr (geodetic2enu pm la lo h la0 lo0 h0))"

definition pm_enu2geodetic ::
  "pymap3d \<Rightarrow> real \<Rightarrow> real \<Rightarrow> real \<Rightarrow> real \<Rightarrow> real \<Rightarrow> real \<Rightarrow> error + real \<times> real \<times> real" where
  "pm_enu2geodetic pm e n u la0 lo0 h0 =
     (if abs la0 > 90 then Inl (ValueError ''-pi/2 <= latitude <= pi/2'')
      else Inr (enu2geodetic pm e n u la0 lo0 h0))"

definition pm_enu2geodetic_rows ::
  "pymap3d \<Rightarrow> (real \<times> real \<times> real) list \<Rightarrow> real \<Rightarrow> real \<Rightarrow> real \<Rightarrow> error + (real \<times> real \<times> real) list" where
  "pm_enu2geodetic_rows pm rows la0 lo0 h0 =
     (if abs la0 > 90 then Inl (ValueError ''-pi/2 <= latitude <= pi/2'')
      else Inr (map (\<lambda>(E, N, U). enu2geodetic pm E N U la0 lo0 h0) rows))"

definition pm_aer2enu :: "pymap3d \<Rightarrow> real \<Rightarrow> real \<Rightarrow> real \<Rightarrow> error + real \<times> real \<times> real" where
  "pm_aer2enu pm az el srange =
     (if srange < 0 then Inl (ValueError ''Slant range  [0, Infinity)'')
      else Inr (aer2enu pm az el srange))"

definition pm_aer2enu_rows :: "pymap3d \<Rightarrow> real \<Rightarrow> real list \<Rightarrow> real \<Rightarrow> error + (real \<times> real \<times> real) list" where
  "pm_aer2enu_rows pm az el_vals srange =
     (if srange < 0 then Inl (ValueError ''Slant range  [0, Infinity)'')
      else Inr (map (\<lambda>el. aer2enu pm az el srange) el_vals))"

text \<open>
  \<open>numpy.linspace(start, stop, num)\<close> with the default \<open>endpoint=True\<close>, following the
  library's implementation: a negative \<open>num\<close> raises \<open>ValueError\<close>; otherwise the samples
  are \<open>arange(0, num) * step + start\<close> with \<open>step = (stop - start) / (num - 1)\<close> when
  \<open>num - 1 > 0\<close> (and \<open>arange(0, num) * (stop - start) + start\<close> when the step is
  undefined), and for \<open>num > 1\<close> the last sample is overwritten with \<open>stop\<close>. The
  library's message also quotes the number; it is shortened here.
\<close>

definition linspace :: "real \<Rightarrow> real \<Rightarrow> int \<Rightarrow> error + real list" where
  "linspace start stop num =
     (if num < 0 then Inl (ValueError ''Number of samples must be non-negative.'')
      else
        let dv = num - 1;
            delta = stop - start;
            y0 = map real [0..<nat num];
            y1 = (if dv > 0 then map (\<lambda>v. v * (delta / of_int dv)) y0
                  else map (\<lambda>v. v * delta) y0);
            y2 = map (\<lambda>v. v + start) y1
        in Inr (if num > 1 then y2[nat num - 1 := stop] else y2))"

text \<open>
  \<open>ndarray.mean(axis=0)\<close> of an \<open>(N, 3)\<close> array: the column means. For \<open>N = 0\<close> numpy
  returns NaN in every column (with a warning, not an exception); NaN is not a real
  number and is the value \<open>None\<close> here.
\<close>

definition mean_axis0 :: "(real \<times> real \<times> real) list \<Rightarrow> (real \<times> real \<times> real) option" where
  "mean_axis0 rows =
     (if rows = [] then None
      else Some (sum_list (map fst rows) / real (length rows),
                 sum_list (map (fst \<circ> snd) rows) / real (length rows),
                 sum_list (map (snd \<circ> snd) rows) / real (length rows)))"

section \<open>Site (data_containers.py)\<close>

text \<open>
  Methods that mutate the site return the raised error or the returned value together
  with the site as it is when the call ends, so that what an exception leaves behind
  is part of the result.
\<close>

text \<open>
  The loop of \<open>compute_barycenter\<close>: one \<open>geodetic2ecef\<close> call for each telescope, in
  order; the first call that raises ends it.
\<close>

fun ecef_coords_loop :: "pymap3d \<Rightarrow> (string \<times> Telescope) list \<Rightarrow> error + (real \<times> real \<times> real) list" where
  "ecef_coords_loop pm [] = Inr []"
| "ecef_coords_loop pm ((k, t) # ts) =
     (case pm_geodetic2ecef pm (lat (geodetic t)) (lon (geodetic t))
             (alt (geodetic t) + focalplane_height t) of
        Inl err \<Rightarrow> Inl err
      | Inr xyz \<Rightarrow>
          (case ecef_coords_loop pm ts of
             Inl err \<Rightarrow> Inl err
           | Inr ecef_coords_list \<Rightarrow> Inr (xyz # ecef_coords_list)))"

definition compute_barycenter :: "pymap3d \<Rightarrow> Site \<Rightarrow> error + Geodetic" where
  "compute_barycenter pm self =
     (if telescopes self = [] then Inl (ValueError ''No telescopes defined in the site.'')
      else
        (case ecef_coords_loop pm (telescopes self) of
           Inl err \<Rightarrow> Inl err
         | Inr ecef_coords \<Rightarrow>
             (case mean_axis0 ecef_coords of
                None \<Rightarrow> Inl (ValueError ''No telescopes defined in the site.'') \<comment> \<open>not reached: the list is not empty\<close>
              | Some (Xc, Yc, Zc) \<Rightarrow>
                  (case ecef2geodetic pm Xc Yc Zc of
                     (la, lo, al) \<Rightarrow> Inr (Geodetic la lo al)))))"

text \<open>
  The loop of \<open>_update_all_enu\<close>: for each telescope in order, one \<open>geodetic2enu\<close> call
  and the assignment of \<open>t.enu\<close>. When a call raises, the telescopes before it have
  their new \<open>enu\<close> and it and the later ones are as they were.
\<close>

fun update_enu_loop ::
  "pymap3d \<Rightarrow> Geodetic \<Rightarrow> (string \<times> Telescope) list \<Rightarrow> (error + unit) \<times> (string \<times> Telescope) list" where
  "update_enu_loop pm org [] = (Inr (), [])"
| "update_enu_loop pm org ((k, t) # ts) =
     (case pm_geodetic2enu pm (lat (geodetic t)) (lon (geodetic t))
             (alt (geodetic t) + focalplane_height t) (lat org) (lon org) (alt org) of
        Inl err \<Rightarrow> (Inl err, (k, t) # ts)
      | Inr (e, n, u) \<Rightarrow>
          (case update_enu_loop pm org ts of
             (res, ts') \<Rightarrow> (res, (k, t\<lparr>enu := Some (ENU e n u)\<rparr>) # ts')))"

definition update_all_enu :: "pymap3d \<Rightarrow> Site \<Rightarrow> (error + unit) \<times> Site" where
  "update_all_enu pm self =
     (case origin self of
        None \<Rightarrow> (Inl (ValueError ''Origin must be set before computing ENU coordinates.''), self)
      | Some org \<Rightarrow>
          (case update_enu_loop pm org (telescopes self) of
             (res, ts') \<Rightarrow> (res, self\<lparr>telescopes := ts'\<rparr>)))"

text \<open>
  \<open>set_origin\<close>: the barycenter when the argument is omitted (an error there leaves the
  site untouched), then the assignment of \<open>self.origin\<close>, then \<open>_update_all_enu\<close>.
\<close>

definition set_origin :: "pymap3d \<Rightarrow> Geodetic option \<Rightarrow> Site \<Rightarrow> (error + unit) \<times> Site" where
  "set_origin pm geodetic_arg self =
     (case (case geodetic_arg of
              None \<Rightarrow> compute_barycenter pm self
            | Some g \<Rightarrow> Inr g) of
        Inl err \<Rightarrow> (Inl err, self)
      | Inr g \<Rightarrow> update_all_enu pm (self\<lparr>origin := Some g\<rparr>))"

text \<open>\<open>Site.enu_to_geodetic\<close> on a single \<open>ENU\<close> object (the form the planner calls).\<close>

definition enu_to_geodetic :: "pymap3d \<Rightarrow> Site \<Rightarrow> ENU \<Rightarrow> error + Geodetic" where
  "enu_to_geodetic pm self p =
     (case origin self of
        None \<Rightarrow> Inl (ValueError ''Origin must be set before converting to Geodetic.'')
      | Some org \<Rightarrow>
          (case pm_enu2geodetic pm (enu_e p) (enu_n p) (enu_u p) (lat org) (lon org) (alt org) of
             Inl err \<Rightarrow> Inl err
           | Inr (la, lo, al) \<Rightarrow> Inr (Geodetic la lo al)))"

text \<open>\<open>DroneTrajectory.compute_geodetic\<close> called with a \<open>Site\<close>.\<close>

definition compute_geodetic :: "pymap3d \<Rightarrow> DroneTrajectory \<Rightarrow> Site \<Rightarrow> error + DroneTrajectory" where
  "compute_geodetic pm self st =
     (case origin st of
        None \<Rightarrow> Inl (ValueError ''Site origin must be set to convert ENU -> geodetic.'')
      | Some org \<Rightarrow>
          (case pm_enu2geodetic_rows pm (traj_enu self) (lat org) (lon org) (alt org) of
             Inl err \<Rightarrow> Inl err
           | Inr rows \<Rightarrow> Inr (self\<lparr>traj_geodetic := Some rows\<rparr>)))"

section \<open>Trajectory planner (traj_planner.py)\<close>

record TrajectoryPlanner =
  site :: Site

text \<open>
  The constructor keeps a reference to the site it is given, so the planner's site and
  the caller's site are one object: the second component is that object after the call.
\<close>

definition TrajectoryPlanner_init :: "pymap3d \<Rightarrow> Site \<Rightarrow> (error + TrajectoryPlanner) \<times> Site" where
  "TrajectoryPlanner_init pm st =
     (case origin st of
        None \<Rightarrow>
          (case set_origin pm None st of
             (Inl err, st') \<Rightarrow> (Inl err, st')
           | (Inr _, st') \<Rightarrow> (Inr \<lparr>site = st'\<rparr>, st'))
      | Some _ \<Rightarrow> (Inr \<lparr>site = st\<rparr>, st))"

text \<open>
  The target of \<open>telescope_to_target_aer\<close> is an \<open>ENU\<close> object or an \<open>(N, 3)\<close> array; the
  result is one triple or three arrays. An argument of any other type, for which the
  source raises \<open>TypeError\<close>, is excluded by the type \<open>target\<close>. Reading
  \<open>telescope.enu.e\<close> when \<open>enu\<close> is \<open>None\<close> raises \<open>AttributeError\<close>.
\<close>

datatype target = Target_ENU ENU | Target_ndarray "(real \<times> real \<times> real) list"

datatype aer_value = AER "real \<times> real \<times> real" | AER_arrays "real list" "real list" "real list"

definition telescope_to_target_aer :: "pymap3d \<Rightarrow> Telescope \<Rightarrow> target \<Rightarrow> error + aer_value" where
  "telescope_to_target_aer pm telescope target_enu =
     (case enu telescope of
        None \<Rightarrow> Inl (AttributeError ''e'')
      | Some tel \<Rightarrow>
          (case target_enu of
             Target_ENU p \<Rightarrow>
               Inr (AER (enu2aer pm (enu_e p - enu_e tel) (enu_n p - enu_n tel) (enu_u p - enu_u tel)))
           | Target_ndarray rows \<Rightarrow>
               (let res = map (\<lambda>(E, N, U). enu2aer pm (E - enu_e tel) (N - enu_n tel) (U - enu_u tel)) rows
                in Inr (AER_arrays (map fst res) (map (fst \<circ> snd) res) (map (snd \<circ> snd) res)))))"

text \<open>
  \<open>compute_boresight\<close>. An \<open>ENU\<close> object is always truthy, so \<open>if drone_traj.arccenter\<close>
  tests for \<open>None\<close>. The result is \<open>None\<close> when the mean of an empty trajectory (NaN) is
  the target.
\<close>

definition compute_boresight :: "pymap3d \<Rightarrow> Telescope \<Rightarrow> DroneTrajectory \<Rightarrow> error + aer_value option" where
  "compute_boresight pm telescope drone_traj =
     (let arcc = (case arccenter drone_traj of
                    Some c \<Rightarrow> Some c
                  | None \<Rightarrow>
                      (case mean_axis0 (traj_enu drone_traj) of
                         None \<Rightarrow> None
                       | Some (e, n, u) \<Rightarrow> Some (ENU e n u)))
      in (case arcc of
            Some c \<Rightarrow>
              (case telescope_to_target_aer pm telescope (Target_ENU c) of
                 Inl err \<Rightarrow> Inl err
               | Inr v \<Rightarrow> Inr (Some v))
          | None \<Rightarrow>
              (case enu telescope of
                 None \<Rightarrow> Inl (AttributeError ''e'')
               | Some tel \<Rightarrow> Inr None)))"

text \<open>
  The two steps both arc generators share once the elevation samples are known: the
  \<open>aer2enu\<close> call on the array of elevations, offset by the POI, and the \<open>enu2aer\<close> call
  giving the view from each point back to the POI.
\<close>

definition arc_points ::
  "pymap3d \<Rightarrow> ENU \<Rightarrow> real \<Rightarrow> real \<Rightarrow> real list \<Rightarrow> error + (real \<times> real \<times> real) list" where
  "arc_points pm p az srange el_vals =
     (case pm_aer2enu_rows pm az el_vals srange of
        Inl err \<Rightarrow> Inl err
      | Inr enus \<Rightarrow> Inr (map (\<lambda>(e, n, u). (e + enu_e p, n + enu_n p, u + enu_u p)) enus))"

definition view_of_poi :: "pymap3d \<Rightarrow> ENU \<Rightarrow> (real \<times> real \<times> real) list \<Rightarrow> (real \<times> real \<times> real) list" where
  "view_of_poi pm p enu_points =
     map (\<lambda>(E, N, U). enu2aer pm (- E + enu_e p) (- N + enu_n p) (- U + enu_u p)) enu_points"

definition old_arc_trajectory_202404 ::
  "pymap3d \<Rightarrow> TrajectoryPlanner \<Rightarrow> ENU \<Rightarrow> real \<Rightarrow> real \<Rightarrow> real \<Rightarrow> real \<Rightarrow> int \<Rightarrow> error + DroneTrajectory" where
  "old_arc_trajectory_202404 pm self poi_enu slant_range az_center el_center el_range num_steps_el =
     (case linspace (el_center - el_range / 2) (el_center + el_range / 2) num_steps_el of
        Inl err \<Rightarrow> Inl err
      | Inr el_vals \<Rightarrow>
          (case arc_points pm poi_enu az_center slant_range el_vals of
             Inl err \<Rightarrow> Inl err
           | Inr enu_points \<Rightarrow>
               (let view = view_of_poi pm poi_enu enu_points
                in (case enu_to_geodetic pm (site self) poi_enu of
                      Inl err \<Rightarrow> Inl err
                    | Inr poi_geo \<Rightarrow>
                        (case compute_geodetic pm
                                \<lparr>traj_enu = enu_points,
                                 yaw = map fst view,
                                 pitch = map (fst \<circ> snd) view,
                                 npoints = num_steps_el,
                                 arccenter = None,
                                 traj_geodetic = None,
                                 traj_poi = Some poi_geo,
                                 traj_landing_site = None,
                                 curveradius = Some slant_range,
                                 plot_boresight = Some False\<rparr>
                                (site self) of
                           Inl err \<Rightarrow> Inl err
                         | Inr trajectory \<Rightarrow>
                             Inr (trajectory\<lparr>traj_landing_site := landing_site (site self)\<rparr>))))))"

definition new_arc_trajectory_202412 ::
  "pymap3d \<Rightarrow> TrajectoryPlanner \<Rightarrow> ENU \<Rightarrow> real \<Rightarrow> real \<Rightarrow> real \<Rightarrow> ENU \<Rightarrow> real \<Rightarrow> int \<Rightarrow> error + DroneTrajectory" where
  "new_arc_trajectory_202412 pm self nominal_poi nominal_az nominal_el nominal_srange poi_enu delta_el num_steps_el =
     (case pm_aer2enu pm nominal_az nominal_el nominal_srange of
        Inl err \<Rightarrow> Inl err
      | Inr (ae, an, au) \<Rightarrow>
          (let arccenter_e = ae + enu_e nominal_poi;
               arccenter_n = an + enu_n nominal_poi;
               arccenter_u = au + enu_u nominal_poi
           in (case enu2aer pm (arccenter_e - enu_e poi_enu) (arccenter_n - enu_n poi_enu)
                        (arccenter_u - enu_u poi_enu) of
                 (az0, el0, srange0) \<Rightarrow>
                   (case linspace (el0 - delta_el / 2) (el0 + delta_el / 2) num_steps_el of
                      Inl err \<Rightarrow> Inl err
                    | Inr el_vals \<Rightarrow>
                        (case arc_points pm poi_enu az0 srange0 el_vals of
                           Inl err \<Rightarrow> Inl err
                         | Inr enu_points \<Rightarrow>
                             (let view = view_of_poi pm poi_enu enu_points
                              in (case enu_to_geodetic pm (site self) poi_enu of
                                    Inl err \<Rightarrow> Inl err
                                  | Inr poi_geo \<Rightarrow>
                                      (case compute_geodetic pm
                                              \<lparr>traj_enu = enu_points,
                                               yaw = map fst view,
                                               pitch = map (fst \<circ> snd) view,
                                               npoints = num_steps_el,
                                               arccenter = Some (ENU arccenter_e arccenter_n arccenter_u),
                                               traj_geodetic = None,
                                               traj_poi = Some poi_geo,
                                               traj_landing_site = None,
                                               curveradius = Some srange0,
                                               plot_boresight = Some False\<rparr>
                                              (site self) of
                                         Inl err \<Rightarrow> Inl err
                                       | Inr trajectory \<Rightarrow>
                                           Inr (trajectory\<lparr>traj_landing_site := landing_site (site self)\<rparr>)))))))))"

section \<open>A concrete library instance and a concrete site\<close>

text \<open>
  An instance of the library interface on which the model can be evaluated. The AER
  conversions are the spherical formulas (angles in degrees, azimuth clockwise from
  north, in \<open>[0, 360)\<close>); the geodetic conversions are a planar approximation that
  uses latitude, longitude and height as north, east and up coordinates.
\<close>

definition arctan2 :: "real \<Rightarrow> real \<Rightarrow> real" where
  "arctan2 y x =
     (if 0 < x then arctan (y / x)
      else if x < 0 then (if 0 \<le> y then arctan (y / x) + pi else arctan (y / x) - pi)
      else if 0 < y then pi / 2
      else if y < 0 then - (pi / 2)
      else 0)"

definition pm_planar :: pymap3d where
  "pm_planar =
     \<lparr>geodetic2enu = (\<lambda>la lo h la0 lo0 h0. (lo - lo0, la - la0, h - h0)),
      enu2geodetic = (\<lambda>e n u la0 lo0 h0. (la0 + n, lo0 + e, h0 + u)),
      geodetic2ecef = (\<lambda>la lo al. (lo, la, al)),
      ecef2geodetic = (\<lambda>x y z. (y, x, z)),
      enu2aer = (\<lambda>e n u.
        let r = sqrt (e * e + n * n);
            a = arctan2 e n
        in ((if a < 0 then a + 2 * pi else a) * 180 / pi,
            arctan2 u r * 180 / pi,
            sqrt (r * r + u * u))),
      aer2enu = (\<lambda>az el srange.
        let r = srange * cos (el * pi / 180)
        in (r * sin (az * pi / 180), r * cos (az * pi / 180), srange * sin (el * pi / 180)))\<rparr>"

text \<open>
  The site of the specification's end-to-end example: one telescope at latitude 0,
  longitude 0, altitude 0. \<open>site_unanchored\<close> is that site as loaded without an origin,
  \<open>site_empty\<close> a site without telescopes. \<open>site_two\<close> has a second telescope whose
  configured latitude, 100 degrees, is one the library refuses, and \<open>planner_polar\<close> is
  a planner on a site whose configured origin has that latitude.
\<close>

definition tel_T1 :: Telescope where
  "tel_T1 = \<lparr>name = ''T1'', geodetic = Geodetic 0 0 0, focalplane_height = 0,
             ecef = None, enu = None\<rparr>"

definition site_unanchored :: Site where
  "site_unanchored = \<lparr>telescopes = [(''T1'', tel_T1)], origin = None, landing_site = None\<rparr>"

definition site_empty :: Site where
  "site_empty = \<lparr>telescopes = [], origin = None, landing_site = None\<rparr>"

definition site_anchored :: Site where
  "site_anchored = snd (set_origin pm_planar (Some (Geodetic 0 0 0)) site_unanchored)"

definition planner_anchored :: TrajectoryPlanner where
  "planner_anchored = \<lparr>site = site_anchored\<rparr>"

definition tel_T2 :: Telescope where
  "tel_T2 = \<lparr>name = ''T2'', geodetic = Geodetic 100 0 0, focalplane_height = 0,
             ecef = None, enu = None\<rparr>"

definition site_two :: Site where
  "site_two = \<lparr>telescopes = [(''T1'', tel_T1), (''T2'', tel_T2)], origin = None, landing_site = None\<rparr>"

definition planner_polar :: TrajectoryPlanner where
  "planner_polar =
     \<lparr>site = \<lparr>telescopes = [(''T1'', tel_T1)], origin = Some (Geodetic 100 0 0), landing_site = None\<rparr>\<rparr>"

section \<open>Facts about the library models\<close>

lemma linspace_neg: "num < 0 \<Longrightarrow> linspace a b num = Inl (ValueError ''Number of samples must be non-negative.'')"
  by (simp add: linspace_def)

lemma linspace_zero: "linspace a b 0 = Inr []"
  by (simp add: linspace_def)

lemma linspace_one: "linspace a b 1 = Inr [a]"
  by (simp add: linspace_def)

lemma linspace_ge2:
  assumes "2 \<le> num"
  shows "linspace a b num =
           Inr ((map (\<lambda>k. real k * ((b - a) / of_int (num - 1)) + a) [0..<nat num])[nat num - 1 := b])"
  using assms by (simp add: linspace_def Let_def comp_def)

lemma linspace_length: "linspace a b num = Inr els \<Longrightarrow> length els = nat num"
  by (auto simp: linspace_def Let_def split: if_splits)

lemma linspace_nth:
  assumes "linspace a b num = Inr els" and "k < nat num"
  shows "els ! k = (if num = 1 then a else a + real k * ((b - a) / of_int (num - 1)))"
proof (cases "num = 1")
  case True
  with assms show ?thesis by (auto simp: linspace_one)
next
  case False
  with assms have n2: "2 \<le> num" by linarith
  have els: "els = (map (\<lambda>k. real k * ((b - a) / of_int (num - 1)) + a) [0..<nat num])[nat num - 1 := b]"
    using assms(1) linspace_ge2 [OF n2, of a b] by simp
  show ?thesis
  proof (cases "k = nat num - 1")
    case True
    have "real k = of_int (num - 1)" using True n2 by simp
    moreover have "of_int (num - 1) \<noteq> (0::real)" using n2 by simp
    ultimately have "a + real k * ((b - a) / of_int (num - 1)) = b" by simp
    moreover have "els ! k = b" using els True assms(2) by simp
    ultimately show ?thesis using False by simp
  next
    case False
    then have "els ! k = real k * ((b - a) / of_int (num - 1)) + a"
      using els assms(2) by simp
    then show ?thesis using \<open>num \<noteq> 1\<close> by simp
  qed
qed

lemma linspace_last:
  assumes "linspace a b num = Inr els" and "2 \<le> num"
  shows "els ! (nat num - 1) = b" and "els ! 0 = a"
  using assms linspace_ge2 [OF assms(2), of a b] by (auto simp: nth_list_update)

lemma linspace_total: "0 \<le> num \<Longrightarrow> \<exists>els. linspace a b num = Inr els"
  by (simp add: linspace_def Let_def)

section \<open>Facts about the arc generators\<close>

lemma arc_points_Inr:
  "0 \<le> r \<Longrightarrow>
   arc_points pm p az r els =
     Inr (map (\<lambda>el. case aer2enu pm az el r of (e, n, u) \<Rightarrow> (e + enu_e p, n + enu_n p, u + enu_u p)) els)"
  by (simp add: arc_points_def pm_aer2enu_rows_def comp_def)

lemma arc_points_neg:
  "r < 0 \<Longrightarrow> arc_points pm p az r els = Inl (ValueError ''Slant range  [0, Infinity)'')"
  by (simp add: arc_points_def pm_aer2enu_rows_def)

lemma arc_points_range: "arc_points pm p az r els = Inr pts \<Longrightarrow> 0 \<le> r"
  using arc_points_neg [of r pm p az els] by (cases "r < 0") auto

lemma arc_points_length: "arc_points pm p az r els = Inr pts \<Longrightarrow> length pts = length els"
  using arc_points_Inr [of r pm p az els] arc_points_range [of pm p az r els pts] by auto

lemma arc_points_nth:
  "arc_points pm p az r els = Inr pts \<Longrightarrow> k < length els \<Longrightarrow>
   pts ! k =
     (case aer2enu pm az (els ! k) r of (e, n, u) \<Rightarrow> (e + enu_e p, n + enu_n p, u + enu_u p))"
  using arc_points_Inr [of r pm p az els] arc_points_range [of pm p az r els pts] by auto

lemma view_of_poi_nth:
  "k < length pts \<Longrightarrow>
   view_of_poi pm p pts ! k =
     (case pts ! k of (E, N, U) \<Rightarrow> enu2aer pm (enu_e p - E) (enu_n p - N) (enu_u p - U))"
  by (simp add: view_of_poi_def split: prod.splits)

lemma enu_to_geodetic_Inr:
  "origin st = Some org \<Longrightarrow> abs (lat org) \<le> 90 \<Longrightarrow>
   enu_to_geodetic pm st p =
     Inr (case enu2geodetic pm (enu_e p) (enu_n p) (enu_u p) (lat org) (lon org) (alt org) of
            (la, lo, al) \<Rightarrow> Geodetic la lo al)"
  by (simp add: enu_to_geodetic_def pm_enu2geodetic_def split: prod.splits)

lemma enu_to_geodetic_polar:
  "origin st = Some org \<Longrightarrow> 90 < abs (lat org) \<Longrightarrow>
   enu_to_geodetic pm st p = Inl (ValueError ''-pi/2 <= latitude <= pi/2'')"
  by (simp add: enu_to_geodetic_def pm_enu2geodetic_def)

lemma compute_geodetic_Inr:
  "origin st = Some org \<Longrightarrow> abs (lat org) \<le> 90 \<Longrightarrow>
   compute_geodetic pm t st =
     Inr (t\<lparr>traj_geodetic :=
            Some (map (\<lambda>(E, N, U). enu2geodetic pm E N U (lat org) (lon org) (alt org))
                      (traj_enu t))\<rparr>)"
  by (simp add: compute_geodetic_def pm_enu2geodetic_rows_def)

lemma compute_geodetic_fields:
  "compute_geodetic pm t st = Inr t' \<Longrightarrow> \<exists>rows. t' = t\<lparr>traj_geodetic := Some rows\<rparr>"
  by (auto simp: compute_geodetic_def split: option.splits sum.splits)

lemma old_arc_trajectory_Inr:
  assumes "origin (site self) = Some org" and "abs (lat org) \<le> 90" and "0 \<le> r"
    and "linspace (el - w / 2) (el + w / 2) N = Inr els"
  shows "\<exists>t. old_arc_trajectory_202404 pm self p r az el w N = Inr t
     \<and> arc_points pm p az r els = Inr (traj_enu t)
     \<and> yaw t = map fst (view_of_poi pm p (traj_enu t))
     \<and> pitch t = map (fst \<circ> snd) (view_of_poi pm p (traj_enu t))
     \<and> npoints t = N \<and> arccenter t = None \<and> curveradius t = Some r
     \<and> traj_landing_site t = landing_site (site self)"
  using assms(4) arc_points_Inr [OF assms(3), of pm p az els]
  by (simp add: old_arc_trajectory_202404_def Let_def
      enu_to_geodetic_Inr [OF assms(1,2)] compute_geodetic_Inr [OF assms(1,2)])

lemma old_arc_trajectory_Inr_iff:
  assumes "old_arc_trajectory_202404 pm self p r az el w N = Inr t"
  shows "\<exists>els. linspace (el - w / 2) (el + w / 2) N = Inr els
     \<and> arc_points pm p az r els = Inr (traj_enu t)
     \<and> yaw t = map fst (view_of_poi pm p (traj_enu t))
     \<and> pitch t = map (fst \<circ> snd) (view_of_poi pm p (traj_enu t))
     \<and> arccenter t = None"
  using assms
  by (auto simp: old_arc_trajectory_202404_def Let_def
      split: sum.splits dest!: compute_geodetic_fields)

lemma new_arc_trajectory_Inr:
  assumes "origin (site self) = Some org" and "abs (lat org) \<le> 90"
    and "0 \<le> nr" and "aer2enu pm naz nel nr = (ae, an, au)"
    and "enu2aer pm (ae + enu_e np - enu_e p) (an + enu_n np - enu_n p) (au + enu_u np - enu_u p) = (az0, el0, r0)"
    and "0 \<le> r0"
    and "linspace (el0 - d / 2) (el0 + d / 2) N = Inr els"
  shows "\<exists>t. new_arc_trajectory_202412 pm self np naz nel nr p d N = Inr t
     \<and> arc_points pm p az0 r0 els = Inr (traj_enu t)
     \<and> yaw t = map fst (view_of_poi pm p (traj_enu t))
     \<and> pitch t = map (fst \<circ> snd) (view_of_poi pm p (traj_enu t))
     \<and> npoints t = N
     \<and> arccenter t = Some (ENU (ae + enu_e np) (an + enu_n np) (au + enu_u np))
     \<and> curveradius t = Some r0
     \<and> traj_landing_site t = landing_site (site self)"
  using assms(3,4,5,7) arc_points_Inr [OF assms(6), of pm p az0 els]
  by (simp add: new_arc_trajectory_202412_def pm_aer2enu_def Let_def
      enu_to_geodetic_Inr [OF assms(1,2)] compute_geodetic_Inr [OF assms(1,2)])

lemma new_arc_trajectory_Inr_iff:
  assumes "new_arc_trajectory_202412 pm self np naz nel nr p d N = Inr t"
  shows "yaw t = map fst (view_of_poi pm p (traj_enu t))
     \<and> pitch t = map (fst \<circ> snd) (view_of_poi pm p (traj_enu t))"
  using assms
  by (auto simp: new_arc_trajectory_202412_def Let_def
      split: sum.splits prod.splits dest!: compute_geodetic_fields)

lemma new_arc_trajectory_neg_range:
  "nr < 0 \<Longrightarrow>
   new_arc_trajectory_202412 pm self np naz nel nr p d N = Inl (ValueError ''Slant range  [0, Infinity)'')"
  by (simp add: new_arc_trajectory_202412_def pm_aer2enu_def)

lemma old_arc_trajectory_neg_range:
  "0 \<le> N \<Longrightarrow> r < 0 \<Longrightarrow>
   old_arc_trajectory_202404 pm self p r az el w N = Inl (ValueError ''Slant range  [0, Infinity)'')"
  using linspace_total [of N "el - w / 2" "el + w / 2"]
  by (auto simp: old_arc_trajectory_202404_def arc_points_neg)

lemma old_arc_trajectory_polar:
  "0 \<le> N \<Longrightarrow> 0 \<le> r \<Longrightarrow> origin (site self) = Some org \<Longrightarrow> 90 < abs (lat org) \<Longrightarrow>
   old_arc_trajectory_202404 pm self p r az el w N = Inl (ValueError ''-pi/2 <= latitude <= pi/2'')"
  using linspace_total [of N "el - w / 2" "el + w / 2"]
  by (auto simp: old_arc_trajectory_202404_def arc_points_Inr enu_to_geodetic_polar Let_def)

lemma new_arc_trajectory_polar:
  assumes "0 \<le> N" and "0 \<le> nr" and "\<forall>e n u. 0 \<le> snd (snd (enu2aer pm e n u))"
    and "origin (site self) = Some org" and "90 < abs (lat org)"
  shows "new_arc_trajectory_202412 pm self np naz nel nr p d N = Inl (ValueError ''-pi/2 <= latitude <= pi/2'')"
proof -
  obtain ae an au where a: "aer2enu pm naz nel nr = (ae, an, au)"
    by (cases "aer2enu pm naz nel nr") auto
  obtain az0 el0 r0 where b:
    "enu2aer pm (ae + enu_e np - enu_e p) (an + enu_n np - enu_n p) (au + enu_u np - enu_u p) = (az0, el0, r0)"
    by (cases "enu2aer pm (ae + enu_e np - enu_e p) (an + enu_n np - enu_n p) (au + enu_u np - enu_u p)") auto
  have r0: "0 \<le> r0" using assms(3) b by (metis snd_conv)
  obtain els where els: "linspace (el0 - d / 2) (el0 + d / 2) N = Inr els"
    using linspace_total [OF assms(1)] by blast
  show ?thesis
    using assms(2) a b els
    by (simp add: new_arc_trajectory_202412_def pm_aer2enu_def Let_def arc_points_Inr [OF r0]
        enu_to_geodetic_polar [OF assms(4,5)])
qed

lemma pm_planar_range_nonneg: "0 \<le> snd (snd (enu2aer pm_planar e n u))"
  by (simp add: pm_planar_def Let_def)

lemma arc_points_linspace_nth:
  assumes "linspace lo hi N = Inr els" and "arc_points pm p az r els = Inr pts" and "k < nat N"
  shows "pts ! k =
     (case aer2enu pm az (if N = 1 then lo else lo + real k * ((hi - lo) / of_int (N - 1))) r of
        (e, n, u) \<Rightarrow> (e + enu_e p, n + enu_n p, u + enu_u p))"
proof -
  have len: "length els = nat N" using assms(1) by (rule linspace_length)
  have "els ! k = (if N = 1 then lo else lo + real k * ((hi - lo) / of_int (N - 1)))"
    using assms(1,3) by (rule linspace_nth)
  then show ?thesis using len assms(3) arc_points_nth [OF assms(2), of k] by simp
qed

lemma arc_points_linspace_ends:
  assumes "linspace lo hi N = Inr els" and "arc_points pm p az r els = Inr pts" and "2 \<le> N"
  shows "pts ! 0 =
           (case aer2enu pm az lo r of (e, n, u) \<Rightarrow> (e + enu_e p, n + enu_n p, u + enu_u p))"
    and "pts ! (nat N - 1) =
           (case aer2enu pm az hi r of (e, n, u) \<Rightarrow> (e + enu_e p, n + enu_n p, u + enu_u p))"
proof -
  have len: "length els = nat N" using assms(1) by (rule linspace_length)
  have pos: "0 < length els" "nat N - 1 < length els" using assms(3) len by simp_all
  show "pts ! 0 =
           (case aer2enu pm az lo r of (e, n, u) \<Rightarrow> (e + enu_e p, n + enu_n p, u + enu_u p))"
    using linspace_last(2) [OF assms(1,3)] arc_points_nth [OF assms(2) pos(1)] by simp
  show "pts ! (nat N - 1) =
           (case aer2enu pm az hi r of (e, n, u) \<Rightarrow> (e + enu_e p, n + enu_n p, u + enu_u p))"
    using linspace_last(1) [OF assms(1,3)] arc_points_nth [OF assms(2) pos(2)] by simp
qed

lemma arc_points_linspace_middle:
  assumes "linspace (c - d / 2) (c + d / 2) N = Inr els" and "arc_points pm p az r els = Inr pts"
    and "N = 2 * int m + 1" and "1 \<le> m"
  shows "pts ! m =
           (case aer2enu pm az c r of (e, n, u) \<Rightarrow> (e + enu_e p, n + enu_n p, u + enu_u p))"
proof -
  have k: "m < nat N" using assms(3) by simp
  have n1: "N \<noteq> 1" using assms(3,4) by simp
  have len: "length els = nat N" using assms(1) by (rule linspace_length)
  have dv: "real_of_int (N - 1) = 2 * real m" using assms(3) by simp
  have m0: "real m \<noteq> 0" using assms(4) by simp
  have "real m * ((c + d / 2 - (c - d / 2)) / (2 * real m)) = d / 2"
    using m0 by simp
  then have "c - d / 2 + real m * ((c + d / 2 - (c - d / 2)) / of_int (N - 1)) = c"
    unfolding dv by simp
  moreover have "els ! m = c - d / 2 + real m * ((c + d / 2 - (c - d / 2)) / of_int (N - 1))"
    using linspace_nth [OF assms(1) k] n1 by simp
  ultimately have "els ! m = c" by simp
  then show ?thesis using len k arc_points_nth [OF assms(2), of m] by simp
qed

lemma planner_anchored_origin: "origin (site planner_anchored) = Some (Geodetic 0 0 0)"
  by (simp add: planner_anchored_def site_anchored_def set_origin_def update_all_enu_def
      site_unanchored_def tel_T1_def pm_geodetic2enu_def split: prod.splits)

lemma planner_polar_origin: "origin (site planner_polar) = Some (Geodetic 100 0 0)"
  by (simp add: planner_polar_def)

section \<open>The fixed-AER arc\<close>

text \<open>
  C1, as the code has it. On a planner whose site has an origin with a latitude in
  \<open>[-90, 90]\<close>, and for every POI, slant range \<open>r \<ge> 0\<close>, centre azimuth \<open>az\<close>, centre
  elevation \<open>el\<close>, sweep width \<open>w\<close> and point count \<open>N \<ge> 1\<close>, \<open>old_arc_trajectory_202404\<close>
  returns a trajectory of exactly \<open>N\<close> points. The \<open>k\<close>-th point is the POI plus
  \<open>aer2enu(az, el\<^sub>k, r)\<close>, so its displacement from the POI is the library's offset for
  the one azimuth \<open>az\<close> and the one range \<open>r\<close>. For \<open>N \<ge> 2\<close> the elevations are
  \<open>el\<^sub>k = el - w/2 + k * w/(N - 1)\<close>, so the first is \<open>el - w/2\<close> and the last is
  \<open>el + w/2\<close>. For \<open>N = 1\<close> the single point is at elevation \<open>el - w/2\<close>, the lower end
  of the sweep.
\<close>

theorem old_arc_trajectory_points:
  assumes "origin (site self) = Some org" and "abs (lat org) \<le> 90" and "0 \<le> r" and "1 \<le> N"
  shows "\<exists>t. old_arc_trajectory_202404 pm self poi_enu r az el w N = Inr t
     \<and> npoints t = N \<and> length (traj_enu t) = nat N
     \<and> (\<forall>k<nat N. traj_enu t ! k =
           (case aer2enu pm az
                   (if N = 1 then el - w / 2 else el - w / 2 + real k * (w / of_int (N - 1))) r of
              (e, n, u) \<Rightarrow> (e + enu_e poi_enu, n + enu_n poi_enu, u + enu_u poi_enu)))
     \<and> (\<forall>k<nat N. case traj_enu t ! k of
           (E, Nc, U) \<Rightarrow>
             (E - enu_e poi_enu, Nc - enu_n poi_enu, U - enu_u poi_enu) =
               aer2enu pm az
                 (if N = 1 then el - w / 2 else el - w / 2 + real k * (w / of_int (N - 1))) r)
     \<and> (2 \<le> N \<longrightarrow>
          traj_enu t ! 0 =
            (case aer2enu pm az (el - w / 2) r of
               (e, n, u) \<Rightarrow> (e + enu_e poi_enu, n + enu_n poi_enu, u + enu_u poi_enu))
        \<and> traj_enu t ! (nat N - 1) =
            (case aer2enu pm az (el + w / 2) r of
               (e, n, u) \<Rightarrow> (e + enu_e poi_enu, n + enu_n poi_enu, u + enu_u poi_enu)))"
proof -
  from assms(4) obtain els where els: "linspace (el - w / 2) (el + w / 2) N = Inr els"
    using linspace_total [of N] by fastforce
  from old_arc_trajectory_Inr [OF assms(1,2,3) els, of pm poi_enu az]
  obtain t where t: "old_arc_trajectory_202404 pm self poi_enu r az el w N = Inr t"
    and pts: "arc_points pm poi_enu az r els = Inr (traj_enu t)" and np: "npoints t = N"
    by blast
  have width: "el + w / 2 - (el - w / 2) = w" by simp
  have len: "length (traj_enu t) = nat N"
    using arc_points_length [OF pts] linspace_length [OF els] by simp
  have nth: "\<forall>k<nat N. traj_enu t ! k =
           (case aer2enu pm az
                   (if N = 1 then el - w / 2 else el - w / 2 + real k * (w / of_int (N - 1))) r of
              (e, n, u) \<Rightarrow> (e + enu_e poi_enu, n + enu_n poi_enu, u + enu_u poi_enu))"
    using arc_points_linspace_nth [OF els pts] width by simp
  have disp: "\<forall>k<nat N. case traj_enu t ! k of
           (E, Nc, U) \<Rightarrow>
             (E - enu_e poi_enu, Nc - enu_n poi_enu, U - enu_u poi_enu) =
               aer2enu pm az
                 (if N = 1 then el - w / 2 else el - w / 2 + real k * (w / of_int (N - 1))) r"
  proof (intro allI impI)
    fix k assume "k < nat N"
    with nth have "traj_enu t ! k =
           (case aer2enu pm az
                   (if N = 1 then el - w / 2 else el - w / 2 + real k * (w / of_int (N - 1))) r of
              (e, n, u) \<Rightarrow> (e + enu_e poi_enu, n + enu_n poi_enu, u + enu_u poi_enu))"
      by blast
    then show "case traj_enu t ! k of
           (E, Nc, U) \<Rightarrow>
             (E - enu_e poi_enu, Nc - enu_n poi_enu, U - enu_u poi_enu) =
               aer2enu pm az
                 (if N = 1 then el - w / 2 else el - w / 2 + real k * (w / of_int (N - 1))) r"
      by (simp split: prod.splits)
  qed
  have ends: "2 \<le> N \<longrightarrow>
          traj_enu t ! 0 =
            (case aer2enu pm az (el - w / 2) r of
               (e, n, u) \<Rightarrow> (e + enu_e poi_enu, n + enu_n poi_enu, u + enu_u poi_enu))
        \<and> traj_enu t ! (nat N - 1) =
            (case aer2enu pm az (el + w / 2) r of
               (e, n, u) \<Rightarrow> (e + enu_e poi_enu, n + enu_n poi_enu, u + enu_u poi_enu))"
    using arc_points_linspace_ends [OF els pts] by simp
  from t np len nth disp ends show ?thesis by blast
qed

theorem old_arc_trajectory_points_witness:
  "\<exists>t. old_arc_trajectory_202404 pm_planar planner_anchored (ENU 1000 0 0) 1000 90 10 10 3 = Inr t
     \<and> npoints t = 3 \<and> length (traj_enu t) = 3
     \<and> traj_enu t ! 1 = (case aer2enu pm_planar 90 10 1000 of (e, n, u) \<Rightarrow> (e + 1000, n + 0, u + 0))"
proof -
  have h1: "abs (lat (Geodetic 0 0 0)) \<le> 90" by simp
  have h2: "(0::real) \<le> 1000" by simp
  have h3: "(1::int) \<le> 3" by simp
  from old_arc_trajectory_points [OF planner_anchored_origin h1 h2 h3, of pm_planar "ENU 1000 0 0" 90 10 10]
  obtain t where t: "old_arc_trajectory_202404 pm_planar planner_anchored (ENU 1000 0 0) 1000 90 10 10 3 = Inr t"
    and np: "npoints t = 3" and len: "length (traj_enu t) = nat 3"
    and nth: "\<forall>k<nat 3. traj_enu t ! k =
           (case aer2enu pm_planar 90
                   (if (3::int) = 1 then 10 - 10 / 2 else 10 - 10 / 2 + real k * (10 / of_int (3 - 1))) 1000 of
              (e, n, u) \<Rightarrow> (e + enu_e (ENU 1000 0 0), n + enu_n (ENU 1000 0 0), u + enu_u (ENU 1000 0 0)))"
    by blast
  have "(1::nat) < nat 3" by simp
  with nth have "traj_enu t ! 1 = (case aer2enu pm_planar 90 10 1000 of (e, n, u) \<Rightarrow> (e + 1000, n + 0, u + 0))"
    by fastforce
  with t np len show ?thesis by simp
qed

text \<open>
  C1 as stated says that \<open>N = 1\<close> gives the single point at the centre elevation, and
  that a trajectory is produced for every slant range. With centre elevation 30, sweep
  width 60, azimuth 0, range 100 and the POI at the origin, the one point returned is
  at elevation 0, which is \<open>(0, 100, 0)\<close>; the point at the centre elevation 30 is a
  different one (its up component is 50). With the slant range -100 the library
  refuses the range and no trajectory is returned; on a site whose origin has latitude
  100 the library refuses the origin.
\<close>

theorem old_arc_single_point_counterexample:
  "map_sum id traj_enu (old_arc_trajectory_202404 pm_planar planner_anchored (ENU 0 0 0) 100 0 30 60 1)
     = Inr [(0, 100, 0)]
   \<and> (case aer2enu pm_planar 0 30 100 of (e, n, u) \<Rightarrow> (e + 0, n + 0, u + 0)) \<noteq> (0, 100, 0)
   \<and> old_arc_trajectory_202404 pm_planar planner_anchored (ENU 1000 0 0) (- 100) 90 10 10 3
     = Inl (ValueError ''Slant range  [0, Infinity)'')
   \<and> old_arc_trajectory_202404 pm_planar planner_polar (ENU 1000 0 0) 1000 90 10 10 3
     = Inl (ValueError ''-pi/2 <= latitude <= pi/2'')"
proof -
  have s30: "sin (30 * pi / 180) = 1 / 2" using sin_30 by simp
  have h1: "abs (lat (Geodetic 0 0 0)) \<le> 90" by simp
  have "map_sum id traj_enu (old_arc_trajectory_202404 pm_planar planner_anchored (ENU 0 0 0) 100 0 30 60 1)
     = Inr [(0, 100, 0)]"
    by (simp add: old_arc_trajectory_202404_def linspace_one arc_points_Inr Let_def
        enu_to_geodetic_Inr [OF planner_anchored_origin h1]
        compute_geodetic_Inr [OF planner_anchored_origin h1])
       (simp add: pm_planar_def)
  moreover have "(case aer2enu pm_planar 0 30 100 of (e, n, u) \<Rightarrow> (e + 0, n + 0, u + 0)) \<noteq> (0, 100, 0)"
    using s30 by (simp add: pm_planar_def Let_def)
  moreover have "old_arc_trajectory_202404 pm_planar planner_anchored (ENU 1000 0 0) (- 100) 90 10 10 3
     = Inl (ValueError ''Slant range  [0, Infinity)'')"
    by (rule old_arc_trajectory_neg_range) simp_all
  moreover have "old_arc_trajectory_202404 pm_planar planner_polar (ENU 1000 0 0) 1000 90 10 10 3
     = Inl (ValueError ''-pi/2 <= latitude <= pi/2'')"
    by (rule old_arc_trajectory_polar [OF _ _ planner_polar_origin]) simp_all
  ultimately show ?thesis by simp
qed

section \<open>Orientation\<close>

text \<open>
  C2. For every trajectory returned by either arc generator and every index \<open>k\<close> of it,
  \<open>yaw[k]\<close> and \<open>pitch[k]\<close> are the azimuth and the elevation that \<open>enu2aer\<close> gives for
  the displacement from the \<open>k\<close>-th trajectory point to the POI passed as the actual
  POI (the POI minus the point), and \<open>yaw\<close> and \<open>pitch\<close> have one entry for each point.
\<close>

theorem arc_orientation_faces_poi:
  assumes "old_arc_trajectory_202404 pm self poi_enu r az el w N = Inr t
         \<or> new_arc_trajectory_202412 pm self nominal_poi nominal_az nominal_el nominal_srange poi_enu d N = Inr t"
    and "k < length (traj_enu t)"
  shows "length (yaw t) = length (traj_enu t) \<and> length (pitch t) = length (traj_enu t)
     \<and> (case traj_enu t ! k of
          (E, Nc, U) \<Rightarrow>
            yaw t ! k = fst (enu2aer pm (enu_e poi_enu - E) (enu_n poi_enu - Nc) (enu_u poi_enu - U))
          \<and> pitch t ! k = fst (snd (enu2aer pm (enu_e poi_enu - E) (enu_n poi_enu - Nc) (enu_u poi_enu - U))))"
proof -
  have view: "yaw t = map fst (view_of_poi pm poi_enu (traj_enu t))
            \<and> pitch t = map (fst \<circ> snd) (view_of_poi pm poi_enu (traj_enu t))"
    using assms(1) old_arc_trajectory_Inr_iff new_arc_trajectory_Inr_iff by blast
  have len: "length (view_of_poi pm poi_enu (traj_enu t)) = length (traj_enu t)"
    by (simp add: view_of_poi_def)
  show ?thesis
    using view len assms(2) by (simp add: view_of_poi_nth split: prod.splits)
qed

theorem arc_orientation_faces_poi_witness:
  "\<exists>t. old_arc_trajectory_202404 pm_planar planner_anchored (ENU 1000 0 0) 1000 90 10 10 3 = Inr t
     \<and> 1 < length (traj_enu t)
     \<and> (case traj_enu t ! 1 of
          (E, Nc, U) \<Rightarrow>
            yaw t ! 1 = fst (enu2aer pm_planar (1000 - E) (0 - Nc) (0 - U))
          \<and> pitch t ! 1 = fst (snd (enu2aer pm_planar (1000 - E) (0 - Nc) (0 - U))))"
proof -
  have h1: "abs (lat (Geodetic 0 0 0)) \<le> 90" by simp
  have h2: "(0::real) \<le> 1000" by simp
  obtain els where els: "linspace (10 - 10 / 2) (10 + 10 / 2) 3 = Inr els"
    using linspace_total [of 3] by fastforce
  from old_arc_trajectory_Inr [OF planner_anchored_origin h1 h2 els, of pm_planar "ENU 1000 0 0" 90]
  obtain t where t: "old_arc_trajectory_202404 pm_planar planner_anchored (ENU 1000 0 0) 1000 90 10 10 3 = Inr t"
    and pts: "arc_points pm_planar (ENU 1000 0 0) 90 1000 els = Inr (traj_enu t)"
    by blast
  have k: "1 < length (traj_enu t)"
    using arc_points_length [OF pts] linspace_length [OF els] by simp
  from arc_orientation_faces_poi [OF disjI1 [OF t] k] t k show ?thesis by auto
qed

section \<open>The nominal-pointing arc\<close>

text \<open>
  C3, as the code has it. On a planner whose site has an origin with a latitude in
  \<open>[-90, 90]\<close>, for a nominal range \<open>\<ge> 0\<close> and every point count \<open>N \<ge> 0\<close>,
  \<open>new_arc_trajectory_202412\<close> computes the arc centre \<open>c\<close> as the nominal POI plus
  \<open>aer2enu(nominal az, nominal el, nominal range)\<close> and takes
  \<open>(az0, el0, r0) = enu2aer(c - actual POI)\<close>. When \<open>r0 \<ge> 0\<close> (a range \<open>enu2aer\<close> reports
  is not negative) it returns a trajectory of \<open>N\<close> points, the \<open>k\<close>-th being the actual
  POI plus \<open>aer2enu(az0, el\<^sub>k, r0)\<close> with \<open>el\<^sub>k = el0 - d/2 + k * d/(N - 1)\<close>: the first
  at \<open>el0 - d/2\<close>, the last at \<open>el0 + d/2\<close>, and for an odd count the middle one at
  \<open>el0\<close>. The field \<open>arccenter\<close> is \<open>c\<close> and \<open>curveradius\<close> is \<open>r0\<close>.
\<close>

theorem new_arc_trajectory_points:
  assumes "origin (site self) = Some org" and "abs (lat org) \<le> 90"
    and "0 \<le> nominal_srange" and "0 \<le> N"
  shows "case aer2enu pm nominal_az nominal_el nominal_srange of
      (ae, an, au) \<Rightarrow>
        let c = ENU (ae + enu_e nominal_poi) (an + enu_n nominal_poi) (au + enu_u nominal_poi) in
        case enu2aer pm (enu_e c - enu_e poi_enu) (enu_n c - enu_n poi_enu) (enu_u c - enu_u poi_enu) of
          (az0, el0, r0) \<Rightarrow>
            0 \<le> r0 \<longrightarrow>
            (\<exists>t. new_arc_trajectory_202412 pm self nominal_poi nominal_az nominal_el nominal_srange
                   poi_enu d N = Inr t
              \<and> npoints t = N \<and> length (traj_enu t) = nat N
              \<and> arccenter t = Some c \<and> curveradius t = Some r0
              \<and> (\<forall>k<nat N. traj_enu t ! k =
                    (case aer2enu pm az0
                            (if N = 1 then el0 - d / 2 else el0 - d / 2 + real k * (d / of_int (N - 1))) r0 of
                       (e, n, u) \<Rightarrow> (e + enu_e poi_enu, n + enu_n poi_enu, u + enu_u poi_enu)))
              \<and> (2 \<le> N \<longrightarrow>
                   traj_enu t ! 0 =
                     (case aer2enu pm az0 (el0 - d / 2) r0 of
                        (e, n, u) \<Rightarrow> (e + enu_e poi_enu, n + enu_n poi_enu, u + enu_u poi_enu))
                 \<and> traj_enu t ! (nat N - 1) =
                     (case aer2enu pm az0 (el0 + d / 2) r0 of
                        (e, n, u) \<Rightarrow> (e + enu_e poi_enu, n + enu_n poi_enu, u + enu_u poi_enu)))
              \<and> (\<forall>m\<ge>1. N = 2 * int m + 1 \<longrightarrow>
                   traj_enu t ! m =
                     (case aer2enu pm az0 el0 r0 of
                        (e, n, u) \<Rightarrow> (e + enu_e poi_enu, n + enu_n poi_enu, u + enu_u poi_enu))))"
proof -
  obtain ae an au where a: "aer2enu pm nominal_az nominal_el nominal_srange = (ae, an, au)"
    by (cases "aer2enu pm nominal_az nominal_el nominal_srange") auto
  obtain az0 el0 r0 where b:
    "enu2aer pm (ae + enu_e nominal_poi - enu_e poi_enu) (an + enu_n nominal_poi - enu_n poi_enu)
       (au + enu_u nominal_poi - enu_u poi_enu) = (az0, el0, r0)"
    by (cases "enu2aer pm (ae + enu_e nominal_poi - enu_e poi_enu) (an + enu_n nominal_poi - enu_n poi_enu)
       (au + enu_u nominal_poi - enu_u poi_enu)") auto
  have main: "\<exists>t. new_arc_trajectory_202412 pm self nominal_poi nominal_az nominal_el nominal_srange
                   poi_enu d N = Inr t
              \<and> npoints t = N \<and> length (traj_enu t) = nat N
              \<and> arccenter t = Some (ENU (ae + enu_e nominal_poi) (an + enu_n nominal_poi) (au + enu_u nominal_poi))
              \<and> curveradius t = Some r0
              \<and> (\<forall>k<nat N. traj_enu t ! k =
                    (case aer2enu pm az0
                            (if N = 1 then el0 - d / 2 else el0 - d / 2 + real k * (d / of_int (N - 1))) r0 of
                       (e, n, u) \<Rightarrow> (e + enu_e poi_enu, n + enu_n poi_enu, u + enu_u poi_enu)))
              \<and> (2 \<le> N \<longrightarrow>
                   traj_enu t ! 0 =
                     (case aer2enu pm az0 (el0 - d / 2) r0 of
                        (e, n, u) \<Rightarrow> (e + enu_e poi_enu, n + enu_n poi_enu, u + enu_u poi_enu))
                 \<and> traj_enu t ! (nat N - 1) =
                     (case aer2enu pm az0 (el0 + d / 2) r0 of
                        (e, n, u) \<Rightarrow> (e + enu_e poi_enu, n + enu_n poi_enu, u + enu_u poi_enu)))
              \<and> (\<forall>m\<ge>1. N = 2 * int m + 1 \<longrightarrow>
                   traj_enu t ! m =
                     (case aer2enu pm az0 el0 r0 of
                        (e, n, u) \<Rightarrow> (e + enu_e poi_enu, n + enu_n poi_enu, u + enu_u poi_enu)))"
    if r0: "0 \<le> r0"
  proof -
    from assms(4) obtain els where els: "linspace (el0 - d / 2) (el0 + d / 2) N = Inr els"
      using linspace_total [of N] by fastforce
    from new_arc_trajectory_Inr [OF assms(1,2,3) a b r0 els]
    obtain t where t: "new_arc_trajectory_202412 pm self nominal_poi nominal_az nominal_el nominal_srange
                     poi_enu d N = Inr t"
      and pts: "arc_points pm poi_enu az0 r0 els = Inr (traj_enu t)" and np: "npoints t = N"
      and ac: "arccenter t = Some (ENU (ae + enu_e nominal_poi) (an + enu_n nominal_poi) (au + enu_u nominal_poi))"
      and cr: "curveradius t = Some r0"
      by blast
    have width: "el0 + d / 2 - (el0 - d / 2) = d" by simp
    have len: "length (traj_enu t) = nat N"
      using arc_points_length [OF pts] linspace_length [OF els] by simp
    have nth: "\<forall>k<nat N. traj_enu t ! k =
                      (case aer2enu pm az0
                              (if N = 1 then el0 - d / 2 else el0 - d / 2 + real k * (d / of_int (N - 1))) r0 of
                         (e, n, u) \<Rightarrow> (e + enu_e poi_enu, n + enu_n poi_enu, u + enu_u poi_enu))"
      using arc_points_linspace_nth [OF els pts] width by simp
    have ends: "2 \<le> N \<longrightarrow>
                     traj_enu t ! 0 =
                       (case aer2enu pm az0 (el0 - d / 2) r0 of
                          (e, n, u) \<Rightarrow> (e + enu_e poi_enu, n + enu_n poi_enu, u + enu_u poi_enu))
                   \<and> traj_enu t ! (nat N - 1) =
                       (case aer2enu pm az0 (el0 + d / 2) r0 of
                          (e, n, u) \<Rightarrow> (e + enu_e poi_enu, n + enu_n poi_enu, u + enu_u poi_enu))"
      using arc_points_linspace_ends [OF els pts] by simp
    have mid: "\<forall>m\<ge>1. N = 2 * int m + 1 \<longrightarrow>
                     traj_enu t ! m =
                       (case aer2enu pm az0 el0 r0 of
                          (e, n, u) \<Rightarrow> (e + enu_e poi_enu, n + enu_n poi_enu, u + enu_u poi_enu))"
      using arc_points_linspace_middle [OF els pts] by simp
    from t np len ac cr nth ends mid show ?thesis by blast
  qed
  then show ?thesis using a b by (simp add: Let_def)
qed

theorem new_arc_trajectory_points_witness:
  "\<exists>t. new_arc_trajectory_202412 pm_planar planner_anchored (ENU 1000 0 0) 90 10 1000 (ENU 1000 0 0) 10 5 = Inr t
     \<and> npoints t = 5 \<and> length (traj_enu t) = 5 \<and> curveradius t \<noteq> None \<and> arccenter t \<noteq> None"
proof -
  have h1: "abs (lat (Geodetic 0 0 0)) \<le> 90" by simp
  have h2: "(0::real) \<le> 1000" by simp
  have h3: "(0::int) \<le> 5" by simp
  from new_arc_trajectory_points [OF planner_anchored_origin h1 h2 h3, where pm = pm_planar
      and nominal_az = 90 and nominal_el = 10 and nominal_poi = "ENU 1000 0 0"
      and poi_enu = "ENU 1000 0 0" and d = 10]
  have "0 \<le> snd (snd (enu2aer pm_planar e n u)) \<longrightarrow>
      (\<exists>t. new_arc_trajectory_202412 pm_planar planner_anchored (ENU 1000 0 0) 90 10 1000 (ENU 1000 0 0) 10 5 = Inr t
         \<and> npoints t = 5 \<and> length (traj_enu t) = 5 \<and> curveradius t \<noteq> None \<and> arccenter t \<noteq> None)"
    if "e = fst (aer2enu pm_planar 90 10 1000) + 1000 - 1000"
      and "n = fst (snd (aer2enu pm_planar 90 10 1000)) + 0 - 0"
      and "u = snd (snd (aer2enu pm_planar 90 10 1000)) + 0 - 0" for e n u
    unfolding that by (auto simp: Let_def case_prod_beta)
  then show ?thesis using pm_planar_range_nonneg by blast
qed

text \<open>
  C3 as stated covers every nominal range. With the nominal range -100 the first
  library call refuses the range and no trajectory is returned; on a site whose origin
  has latitude 100 the library refuses the origin.
\<close>

theorem new_arc_negative_range_counterexample:
  "new_arc_trajectory_202412 pm_planar planner_anchored (ENU 1000 0 0) 90 10 (- 100) (ENU 1000 0 0) 10 5
     = Inl (ValueError ''Slant range  [0, Infinity)'')
   \<and> new_arc_trajectory_202412 pm_planar planner_polar (ENU 1000 0 0) 90 10 1000 (ENU 1000 0 0) 10 5
     = Inl (ValueError ''-pi/2 <= latitude <= pi/2'')"
proof -
  have "new_arc_trajectory_202412 pm_planar planner_anchored (ENU 1000 0 0) 90 10 (- 100) (ENU 1000 0 0) 10 5
     = Inl (ValueError ''Slant range  [0, Infinity)'')"
    by (rule new_arc_trajectory_neg_range) simp
  moreover have "new_arc_trajectory_202412 pm_planar planner_polar (ENU 1000 0 0) 90 10 1000 (ENU 1000 0 0) 10 5
     = Inl (ValueError ''-pi/2 <= latitude <= pi/2'')"
    by (rule new_arc_trajectory_polar [OF _ _ _ planner_polar_origin])
       (simp_all add: pm_planar_range_nonneg)
  ultimately show ?thesis by simp
qed

section \<open>Point counts below one\<close>

text \<open>
  C6, as the code has it. For every negative point count both generators raise a
  \<open>ValueError\<close> and return no trajectory: the fixed-AER generator always that of
  \<open>numpy.linspace\<close>; the nominal-pointing generator that of \<open>numpy.linspace\<close> when the
  nominal range is not negative, and otherwise the library's refusal of the range,
  which comes first. For the count 0 neither raises when the ranges are not negative
  and the site's origin has a latitude in \<open>[-90, 90]\<close>: each returns a trajectory with
  \<open>npoints = 0\<close> and no points.
\<close>

theorem arc_generators_small_count:
  "(N < 0 \<longrightarrow>
      old_arc_trajectory_202404 pm self poi_enu r az el w N
        = Inl (ValueError ''Number of samples must be non-negative.'')
    \<and> (0 \<le> nominal_srange \<longrightarrow>
         new_arc_trajectory_202412 pm self nominal_poi nominal_az nominal_el nominal_srange poi_enu d N
           = Inl (ValueError ''Number of samples must be non-negative.''))
    \<and> (nominal_srange < 0 \<longrightarrow>
         new_arc_trajectory_202412 pm self nominal_poi nominal_az nominal_el nominal_srange poi_enu d N
           = Inl (ValueError ''Slant range  [0, Infinity)'')))
   \<and> (origin (site self) = Some org \<and> abs (lat org) \<le> 90 \<longrightarrow>
      (0 \<le> r \<longrightarrow>
         (\<exists>t. old_arc_trajectory_202404 pm self poi_enu r az el w 0 = Inr t
            \<and> npoints t = 0 \<and> traj_enu t = [] \<and> yaw t = [] \<and> pitch t = []))
    \<and> (0 \<le> nominal_srange
        \<and> 0 \<le> snd (snd (enu2aer pm
                  (fst (aer2enu pm nominal_az nominal_el nominal_srange) + enu_e nominal_poi - enu_e poi_enu)
                  (fst (snd (aer2enu pm nominal_az nominal_el nominal_srange)) + enu_n nominal_poi - enu_n poi_enu)
                  (snd (snd (aer2enu pm nominal_az nominal_el nominal_srange)) + enu_u nominal_poi - enu_u poi_enu)))
        \<longrightarrow>
         (\<exists>t. new_arc_trajectory_202412 pm self nominal_poi nominal_az nominal_el nominal_srange poi_enu d 0 = Inr t
            \<and> npoints t = 0 \<and> traj_enu t = [] \<and> yaw t = [] \<and> pitch t = [])))"
proof (intro conjI impI)
  assume "N < 0"
  then show "old_arc_trajectory_202404 pm self poi_enu r az el w N
        = Inl (ValueError ''Number of samples must be non-negative.'')"
    by (simp add: old_arc_trajectory_202404_def linspace_neg)
next
  assume "N < 0" and "0 \<le> nominal_srange"
  then show "new_arc_trajectory_202412 pm self nominal_poi nominal_az nominal_el nominal_srange poi_enu d N
        = Inl (ValueError ''Number of samples must be non-negative.'')"
    by (simp add: new_arc_trajectory_202412_def pm_aer2enu_def linspace_neg Let_def split: prod.splits)
next
  assume "nominal_srange < 0"
  then show "new_arc_trajectory_202412 pm self nominal_poi nominal_az nominal_el nominal_srange poi_enu d N
        = Inl (ValueError ''Slant range  [0, Infinity)'')"
    by (rule new_arc_trajectory_neg_range)
next
  assume o: "origin (site self) = Some org \<and> abs (lat org) \<le> 90" and r: "0 \<le> r"
  from o have org: "origin (site self) = Some org" and la: "abs (lat org) \<le> 90" by simp_all
  from old_arc_trajectory_Inr [where el = el and w = w, OF org la r linspace_zero, of pm poi_enu az]
  obtain t where t: "old_arc_trajectory_202404 pm self poi_enu r az el w 0 = Inr t"
    and pts: "arc_points pm poi_enu az r [] = Inr (traj_enu t)"
    and v: "yaw t = map fst (view_of_poi pm poi_enu (traj_enu t))"
      "pitch t = map (fst \<circ> snd) (view_of_poi pm poi_enu (traj_enu t))"
    and np: "npoints t = 0"
    by blast
  have "traj_enu t = []" using arc_points_length [OF pts] by simp
  then show "\<exists>t. old_arc_trajectory_202404 pm self poi_enu r az el w 0 = Inr t
          \<and> npoints t = 0 \<and> traj_enu t = [] \<and> yaw t = [] \<and> pitch t = []"
    using t v np by (auto simp: view_of_poi_def)
next
  assume o: "origin (site self) = Some org \<and> abs (lat org) \<le> 90"
    and r: "0 \<le> nominal_srange
        \<and> 0 \<le> snd (snd (enu2aer pm
                  (fst (aer2enu pm nominal_az nominal_el nominal_srange) + enu_e nominal_poi - enu_e poi_enu)
                  (fst (snd (aer2enu pm nominal_az nominal_el nominal_srange)) + enu_n nominal_poi - enu_n poi_enu)
                  (snd (snd (aer2enu pm nominal_az nominal_el nominal_srange)) + enu_u nominal_poi - enu_u poi_enu)))"
  from o have org: "origin (site self) = Some org" and la: "abs (lat org) \<le> 90" by simp_all
  obtain ae an au where a: "aer2enu pm nominal_az nominal_el nominal_srange = (ae, an, au)"
    by (cases "aer2enu pm nominal_az nominal_el nominal_srange") auto
  obtain az0 el0 r0 where b:
    "enu2aer pm (ae + enu_e nominal_poi - enu_e poi_enu) (an + enu_n nominal_poi - enu_n poi_enu)
       (au + enu_u nominal_poi - enu_u poi_enu) = (az0, el0, r0)"
    by (cases "enu2aer pm (ae + enu_e nominal_poi - enu_e poi_enu) (an + enu_n nominal_poi - enu_n poi_enu)
       (au + enu_u nominal_poi - enu_u poi_enu)") auto
  from r a b have nr: "0 \<le> nominal_srange" and r0: "0 \<le> r0" by simp_all
  from new_arc_trajectory_Inr [where d = d, OF org la nr a b r0 linspace_zero]
  obtain t where t: "new_arc_trajectory_202412 pm self nominal_poi nominal_az nominal_el nominal_srange poi_enu d 0 = Inr t"
    and pts: "arc_points pm poi_enu az0 r0 [] = Inr (traj_enu t)"
    and v: "yaw t = map fst (view_of_poi pm poi_enu (traj_enu t))"
      "pitch t = map (fst \<circ> snd) (view_of_poi pm poi_enu (traj_enu t))"
    and np: "npoints t = 0"
    by blast
  have "traj_enu t = []" using arc_points_length [OF pts] by simp
  then show "\<exists>t. new_arc_trajectory_202412 pm self nominal_poi nominal_az nominal_el nominal_srange poi_enu d 0 = Inr t
          \<and> npoints t = 0 \<and> traj_enu t = [] \<and> yaw t = [] \<and> pitch t = []"
    using t v np by (auto simp: view_of_poi_def)
qed

theorem arc_generators_small_count_witness:
  "old_arc_trajectory_202404 pm_planar planner_anchored (ENU 1000 0 0) 1000 90 10 10 (- 1)
        = Inl (ValueError ''Number of samples must be non-negative.'')
   \<and> new_arc_trajectory_202412 pm_planar planner_anchored (ENU 1000 0 0) 90 10 1000 (ENU 1000 0 0) 10 (- 1)
        = Inl (ValueError ''Number of samples must be non-negative.'')
   \<and> (\<exists>t. old_arc_trajectory_202404 pm_planar planner_anchored (ENU 1000 0 0) 1000 90 10 10 0 = Inr t
          \<and> npoints t = 0 \<and> traj_enu t = [])
   \<and> (\<exists>t. new_arc_trajectory_202412 pm_planar planner_anchored (ENU 1000 0 0) 90 10 1000 (ENU 1000 0 0) 10 0 = Inr t
          \<and> npoints t = 0 \<and> traj_enu t = [])"
proof -
  have h1: "origin (site planner_anchored) = Some (Geodetic 0 0 0) \<and> abs (lat (Geodetic 0 0 0)) \<le> 90"
    by (simp add: planner_anchored_origin)
  have h2: "(- 1 :: int) < 0" by simp
  have h3: "(0::real) \<le> 1000" by simp
  from arc_generators_small_count [where N = "- 1" and self = planner_anchored and pm = pm_planar
      and poi_enu = "ENU 1000 0 0" and r = 1000 and az = 90 and el = 10 and w = 10
      and nominal_poi = "ENU 1000 0 0" and nominal_az = 90 and nominal_el = 10
      and nominal_srange = 1000 and d = 10 and org = "Geodetic 0 0 0"] h1 h2 h3
    pm_planar_range_nonneg
  show ?thesis by blast
qed

text \<open>
  C6 as stated says that every count below 1 is refused. The count 0 is not: both
  generators return the empty trajectory.
\<close>

theorem arc_generators_zero_count_counterexample:
  "map_sum id traj_enu (old_arc_trajectory_202404 pm_planar planner_anchored (ENU 1000 0 0) 1000 90 10 10 0) = Inr []
   \<and> map_sum id npoints (old_arc_trajectory_202404 pm_planar planner_anchored (ENU 1000 0 0) 1000 90 10 10 0) = Inr 0
   \<and> map_sum id traj_enu (new_arc_trajectory_202412 pm_planar planner_anchored (ENU 1000 0 0) 90 10 1000 (ENU 1000 0 0) 10 0) = Inr []
   \<and> map_sum id npoints (new_arc_trajectory_202412 pm_planar planner_anchored (ENU 1000 0 0) 90 10 1000 (ENU 1000 0 0) 10 0) = Inr 0"
proof -
  have h1: "abs (lat (Geodetic 0 0 0)) \<le> 90" by simp
  have r0: "\<And>e n u az0 el0 r0. enu2aer pm_planar e n u = (az0, el0, r0) \<Longrightarrow> 0 \<le> r0"
    using pm_planar_range_nonneg by (metis snd_conv)
  show ?thesis
    by (auto simp: old_arc_trajectory_202404_def new_arc_trajectory_202412_def linspace_zero
        pm_aer2enu_def arc_points_Inr r0 view_of_poi_def Let_def
        enu_to_geodetic_Inr [OF planner_anchored_origin h1]
        compute_geodetic_Inr [OF planner_anchored_origin h1]
        split: prod.splits)
qed

section \<open>Setting the origin of a site\<close>

lemma compute_barycenter_empty:
  "telescopes st = [] \<Longrightarrow> compute_barycenter pm st = Inl (ValueError ''No telescopes defined in the site.'')"
  by (simp add: compute_barycenter_def)

lemma ecef_coords_loop_length:
  "ecef_coords_loop pm ts = Inr cs \<Longrightarrow> length cs = length ts"
  by (induction pm ts arbitrary: cs rule: ecef_coords_loop.induct) (auto split: sum.splits)

lemma compute_barycenter_cases:
  "telescopes st \<noteq> [] \<Longrightarrow>
   (\<exists>g. compute_barycenter pm st = Inr g) \<or>
   compute_barycenter pm st = Inl (ValueError ''-pi/2 <= latitude <= pi/2'')"
proof (cases "ecef_coords_loop pm (telescopes st)")
  case (Inl err)
  have "\<And>ts. ecef_coords_loop pm ts = Inl err \<Longrightarrow> err = ValueError ''-pi/2 <= latitude <= pi/2''"
  proof -
    fix ts show "ecef_coords_loop pm ts = Inl err \<Longrightarrow> err = ValueError ''-pi/2 <= latitude <= pi/2''"
      by (induction pm ts rule: ecef_coords_loop.induct)
         (auto simp: pm_geodetic2ecef_def split: sum.splits if_splits)
  qed
  with Inl show ?thesis by (auto simp: compute_barycenter_def)
next
  case (Inr cs)
  assume "telescopes st \<noteq> []"
  then have "cs \<noteq> []" using ecef_coords_loop_length [OF Inr] by auto
  then show ?thesis using Inr \<open>telescopes st \<noteq> []\<close>
    by (auto simp: compute_barycenter_def mean_axis0_def split: prod.splits)
qed

lemma update_enu_loop_Inr:
  "update_enu_loop pm org ts = (Inr v, ts') \<Longrightarrow>
   ts' = map (\<lambda>(k, t).
                (k, t\<lparr>enu :=
                      Some (case geodetic2enu pm (lat (geodetic t)) (lon (geodetic t))
                                   (alt (geodetic t) + focalplane_height t)
                                   (lat org) (lon org) (alt org) of
                              (e, n, u) \<Rightarrow> ENU e n u)\<rparr>)) ts"
  by (induction pm org ts arbitrary: ts' rule: update_enu_loop.induct)
     (auto simp: pm_geodetic2enu_def split: sum.splits prod.splits if_splits)

lemma update_enu_loop_Inl:
  "update_enu_loop pm org ts = (Inl err, ts') \<Longrightarrow>
   err = ValueError ''-pi/2 <= latitude <= pi/2'' \<and>
   (\<exists>i<length ts.
      ts' = map (\<lambda>(k, t).
                (k, t\<lparr>enu :=
                      Some (case geodetic2enu pm (lat (geodetic t)) (lon (geodetic t))
                                   (alt (geodetic t) + focalplane_height t)
                                   (lat org) (lon org) (alt org) of
                              (e, n, u) \<Rightarrow> ENU e n u)\<rparr>)) (take i ts) @ drop i ts)"
proof (induction pm org ts arbitrary: ts' rule: update_enu_loop.induct)
  case (1 pm org)
  then show ?case by simp
next
  case (2 pm org k t ts)
  show ?case
  proof (cases "pm_geodetic2enu pm (lat (geodetic t)) (lon (geodetic t))
             (alt (geodetic t) + focalplane_height t) (lat org) (lon org) (alt org)")
    case (Inl e)
    with "2.prems" have "ts' = (k, t) # ts" and "err = e" by simp_all
    moreover have "e = ValueError ''-pi/2 <= latitude <= pi/2''"
      using Inl by (auto simp: pm_geodetic2enu_def split: if_splits)
    ultimately show ?thesis by (auto intro!: exI [of _ 0])
  next
    case (Inr enu3)
    obtain e n u where enu3: "enu3 = (e, n, u)" by (cases enu3) auto
    obtain res rest where rec: "update_enu_loop pm org ts = (res, rest)"
      by (cases "update_enu_loop pm org ts") auto
    from "2.prems" Inr enu3 rec have res: "res = Inl err"
      and ts': "ts' = (k, t\<lparr>enu := Some (ENU e n u)\<rparr>) # rest" by simp_all
    have val: "geodetic2enu pm (lat (geodetic t)) (lon (geodetic t))
             (alt (geodetic t) + focalplane_height t) (lat org) (lon org) (alt org) = (e, n, u)"
      using Inr enu3 by (auto simp: pm_geodetic2enu_def split: if_splits)
    have "err = ValueError ''-pi/2 <= latitude <= pi/2'' \<and>
       (\<exists>i<length ts.
          rest = map (\<lambda>(k, t).
                (k, t\<lparr>enu :=
                      Some (case geodetic2enu pm (lat (geodetic t)) (lon (geodetic t))
                                   (alt (geodetic t) + focalplane_height t)
                                   (lat org) (lon org) (alt org) of
                              (e, n, u) \<Rightarrow> ENU e n u)\<rparr>)) (take i ts) @ drop i ts)"
      using "2.IH" Inr enu3 rec res by blast
    then obtain i where i: "i < length ts" and err: "err = ValueError ''-pi/2 <= latitude <= pi/2''"
      and rest: "rest = map (\<lambda>(k, t).
                (k, t\<lparr>enu :=
                      Some (case geodetic2enu pm (lat (geodetic t)) (lon (geodetic t))
                                   (alt (geodetic t) + focalplane_height t)
                                   (lat org) (lon org) (alt org) of
                              (e, n, u) \<Rightarrow> ENU e n u)\<rparr>)) (take i ts) @ drop i ts"
      by auto
    show ?thesis
      using err i rest ts' val by (auto intro!: exI [of _ "Suc i"])
  qed
qed

lemma update_enu_loop_ok:
  "abs (lat org) \<le> 90 \<Longrightarrow> \<forall>(k, t) \<in> set ts. abs (lat (geodetic t)) \<le> 90 \<Longrightarrow>
   fst (update_enu_loop pm org ts) = Inr ()"
  by (induction pm org ts rule: update_enu_loop.induct)
     (auto simp: pm_geodetic2enu_def split: sum.splits prod.splits)

lemma update_enu_loop_idem:
  "update_enu_loop pm org (snd (update_enu_loop pm org ts)) = update_enu_loop pm org ts"
  by (induction pm org ts rule: update_enu_loop.induct)
     (auto simp: pm_geodetic2enu_def split: sum.splits prod.splits)

lemma update_enu_loop_length: "length (snd (update_enu_loop pm org ts)) = length ts"
  by (induction pm org ts rule: update_enu_loop.induct)
     (auto split: sum.splits prod.splits)

lemma set_origin_Some:
  "set_origin pm (Some g) st = update_all_enu pm (st\<lparr>origin := Some g\<rparr>)"
  by (simp add: set_origin_def)

lemma set_origin_None:
  "set_origin pm None st =
     (case compute_barycenter pm st of
        Inl err \<Rightarrow> (Inl err, st)
      | Inr g \<Rightarrow> update_all_enu pm (st\<lparr>origin := Some g\<rparr>))"
  by (simp add: set_origin_def)

lemma update_all_enu_origin:
  "update_all_enu pm (st\<lparr>origin := Some g\<rparr>) =
     (fst (update_enu_loop pm g (telescopes st)),
      st\<lparr>origin := Some g, telescopes := snd (update_enu_loop pm g (telescopes st))\<rparr>)"
  by (simp add: update_all_enu_def split: prod.splits)


text \<open>
  C4, as the code has it. After a successful call of \<open>set_origin\<close>, with or without a
  \<open>Geodetic\<close> argument, the origin is the new origin \<open>g\<close> (the argument, or the barycenter
  of the telescopes when the argument is omitted) and the \<open>enu\<close> of every telescope is
  \<open>geodetic2enu\<close> of that telescope's latitude, longitude and altitude plus focal-plane
  height, relative to \<open>g\<close>; the telescopes keep their keys and their other fields. The
  update is not atomic. A call that raises while computing the barycenter leaves the
  site as it was, but a call that raises in the update loop leaves the site with the
  new origin, the telescopes before the failing one with their new \<open>enu\<close>, and the
  failing one and those after it with the \<open>enu\<close> they had.
\<close>

theorem set_origin_recomputes_all:
  "case set_origin pm geodetic_arg st of
     (Inr _, st') \<Rightarrow>
       (\<exists>g. origin st' = Some g
          \<and> (case geodetic_arg of Some g0 \<Rightarrow> g = g0 | None \<Rightarrow> compute_barycenter pm st = Inr g)
          \<and> length (telescopes st') = length (telescopes st)
          \<and> (\<forall>i<length (telescopes st).
                case telescopes st ! i of
                  (k, t) \<Rightarrow>
                    telescopes st' ! i =
                      (k, t\<lparr>enu :=
                            Some (case geodetic2enu pm (lat (geodetic t)) (lon (geodetic t))
                                         (alt (geodetic t) + focalplane_height t)
                                         (lat g) (lon g) (alt g) of
                                    (e, n, u) \<Rightarrow> ENU e n u)\<rparr>))
          \<and> (\<forall>(k, t) \<in> set (telescopes st').
                enu t \<noteq> None
              \<and> enu t =
                  Some (case geodetic2enu pm (lat (geodetic t)) (lon (geodetic t))
                               (alt (geodetic t) + focalplane_height t)
                               (lat g) (lon g) (alt g) of
                          (e, n, u) \<Rightarrow> ENU e n u))
          \<and> landing_site st' = landing_site st)
   | (Inl err, st') \<Rightarrow>
       (geodetic_arg = None \<and> compute_barycenter pm st = Inl err \<and> st' = st)
     \<or> (\<exists>g i. (case geodetic_arg of Some g0 \<Rightarrow> g = g0 | None \<Rightarrow> compute_barycenter pm st = Inr g)
           \<and> origin st' = Some g
           \<and> i < length (telescopes st)
           \<and> telescopes st' =
               map (\<lambda>(k, t).
                      (k, t\<lparr>enu :=
                            Some (case geodetic2enu pm (lat (geodetic t)) (lon (geodetic t))
                                         (alt (geodetic t) + focalplane_height t)
                                         (lat g) (lon g) (alt g) of
                                    (e, n, u) \<Rightarrow> ENU e n u)\<rparr>))
                   (take i (telescopes st))
               @ drop i (telescopes st)
           \<and> landing_site st' = landing_site st)"
proof -
  have after: "case update_all_enu pm (st\<lparr>origin := Some g\<rparr>) of
     (Inr _, st') \<Rightarrow>
       origin st' = Some g
          \<and> length (telescopes st') = length (telescopes st)
          \<and> (\<forall>i<length (telescopes st).
                case telescopes st ! i of
                  (k, t) \<Rightarrow>
                    telescopes st' ! i =
                      (k, t\<lparr>enu :=
                            Some (case geodetic2enu pm (lat (geodetic t)) (lon (geodetic t))
                                         (alt (geodetic t) + focalplane_height t)
                                         (lat g) (lon g) (alt g) of
                                    (e, n, u) \<Rightarrow> ENU e n u)\<rparr>))
          \<and> (\<forall>(k, t) \<in> set (telescopes st').
                enu t \<noteq> None
              \<and> enu t =
                  Some (case geodetic2enu pm (lat (geodetic t)) (lon (geodetic t))
                               (alt (geodetic t) + focalplane_height t)
                               (lat g) (lon g) (alt g) of
                          (e, n, u) \<Rightarrow> ENU e n u))
          \<and> landing_site st' = landing_site st
   | (Inl err, st') \<Rightarrow>
       (\<exists>i. origin st' = Some g
           \<and> i < length (telescopes st)
           \<and> telescopes st' =
               map (\<lambda>(k, t).
                      (k, t\<lparr>enu :=
                            Some (case geodetic2enu pm (lat (geodetic t)) (lon (geodetic t))
                                         (alt (geodetic t) + focalplane_height t)
                                         (lat g) (lon g) (alt g) of
                                    (e, n, u) \<Rightarrow> ENU e n u)\<rparr>))
                   (take i (telescopes st))
               @ drop i (telescopes st)
           \<and> landing_site st' = landing_site st)" for g
  proof (cases "update_enu_loop pm g (telescopes st)")
    case (Pair res ts')
    show ?thesis
    proof (cases res)
      case (Inl err)
      from update_enu_loop_Inl [OF Pair [unfolded Inl]] show ?thesis
        unfolding update_all_enu_origin Pair Inl by auto
    next
      case (Inr v)
      from update_enu_loop_Inr [OF Pair [unfolded Inr]] show ?thesis
        unfolding update_all_enu_origin Pair Inr by (auto split: prod.splits)
    qed
  qed
  show ?thesis
  proof (cases geodetic_arg)
    case (Some g0)
    obtain res st' where r: "update_all_enu pm (st\<lparr>origin := Some g0\<rparr>) = (res, st')"
      by fastforce
    show ?thesis
    proof (cases res)
      case (Inl err)
      from after [of g0] show ?thesis
        by (simp add: Some set_origin_Some r Inl)
    next
      case (Inr v)
      from after [of g0] show ?thesis
        by (simp add: Some set_origin_Some r Inr)
    qed
  next
    case None
    show ?thesis
    proof (cases "compute_barycenter pm st")
      case (Inl err)
      then show ?thesis unfolding None set_origin_None by simp
    next
      case bary: (Inr g)
      obtain res st' where r: "update_all_enu pm (st\<lparr>origin := Some g\<rparr>) = (res, st')"
        by fastforce
      show ?thesis
      proof (cases res)
        case (Inl err)
        from after [of g] show ?thesis
          by (simp add: None set_origin_None bary r Inl)
      next
        case (Inr v)
        from after [of g] show ?thesis
          by (simp add: None set_origin_None bary r Inr)
      qed
    qed
  qed
qed

theorem set_origin_recomputes_all_witness:
  "fst (set_origin pm_planar (Some (Geodetic 0 0 0)) site_unanchored) = Inr ()
   \<and> origin (snd (set_origin pm_planar (Some (Geodetic 0 0 0)) site_unanchored)) = Some (Geodetic 0 0 0)
   \<and> map (\<lambda>(k, t). enu t) (telescopes (snd (set_origin pm_planar (Some (Geodetic 0 0 0)) site_unanchored)))
       = [Some (ENU 0 0 0)]"
  using set_origin_recomputes_all [where pm = pm_planar and geodetic_arg = "Some (Geodetic 0 0 0)" and st = site_unanchored]
  by (simp add: set_origin_Some update_all_enu_def site_unanchored_def tel_T1_def pm_planar_def
      pm_geodetic2enu_def)

text \<open>
  C4 as stated says that no state has the new origin with a stale or missing \<open>enu\<close>.
  On the site with telescopes T1 (latitude 0) and T2 (latitude 100), no origin and no
  \<open>enu\<close> yet, \<open>set_origin\<close> with the origin \<open>(0, 0, 0)\<close> raises at T2; afterwards the site
  has the new origin, T1 has its new \<open>enu\<close> and T2 has none.
\<close>

theorem set_origin_partial_update_counterexample:
  "origin site_two = None
   \<and> map (\<lambda>(k, t). enu t) (telescopes site_two) = [None, None]
   \<and> fst (set_origin pm_planar (Some (Geodetic 0 0 0)) site_two)
       = Inl (ValueError ''-pi/2 <= latitude <= pi/2'')
   \<and> origin (snd (set_origin pm_planar (Some (Geodetic 0 0 0)) site_two)) = Some (Geodetic 0 0 0)
   \<and> map (\<lambda>(k, t). enu t) (telescopes (snd (set_origin pm_planar (Some (Geodetic 0 0 0)) site_two)))
       = [Some (ENU 0 0 0), None]"
  by (simp add: set_origin_Some update_all_enu_def site_two_def tel_T1_def tel_T2_def pm_planar_def
      pm_geodetic2enu_def)

text \<open>
  C7, as the code has it. On a site without telescopes, \<open>set_origin\<close> with the origin
  omitted raises the \<open>ValueError\<close> of \<open>compute_barycenter\<close> (no telescopes) and leaves the
  site unchanged; with an explicit \<open>Geodetic\<close> \<open>g\<close> it raises nothing and sets the origin
  to \<open>g\<close>.
\<close>

theorem set_origin_no_telescopes:
  assumes "telescopes st = []"
  shows "set_origin pm None st = (Inl (ValueError ''No telescopes defined in the site.''), st)
       \<and> set_origin pm (Some g) st = (Inr (), st\<lparr>origin := Some g\<rparr>)"
  using assms
  by (simp add: set_origin_None set_origin_Some compute_barycenter_empty update_all_enu_def)

theorem set_origin_no_telescopes_witness:
  "set_origin pm_planar None site_empty = (Inl (ValueError ''No telescopes defined in the site.''), site_empty)
   \<and> set_origin pm_planar (Some (Geodetic 0 0 0)) site_empty
       = (Inr (), site_empty\<lparr>origin := Some (Geodetic 0 0 0)\<rparr>)"
proof -
  have h: "telescopes site_empty = []" by (simp add: site_empty_def)
  from set_origin_no_telescopes [OF h, where pm = pm_planar and g = "Geodetic 0 0 0"] show ?thesis .
qed

text \<open>
  C7 as stated covers the explicit form too. On the site without telescopes,
  \<open>set_origin\<close> with an explicit origin returns normally and the site, whose origin was
  unset, has that origin afterwards.
\<close>

theorem set_origin_explicit_empty_counterexample:
  "telescopes site_empty = []
   \<and> fst (set_origin pm_planar (Some (Geodetic 0 0 0)) site_empty) = Inr ()
   \<and> origin (snd (set_origin pm_planar (Some (Geodetic 0 0 0)) site_empty)) = Some (Geodetic 0 0 0)
   \<and> origin site_empty = None"
  by (simp add: set_origin_Some update_all_enu_def site_empty_def)

text \<open>
  C8. For every site and every \<open>Geodetic\<close> \<open>g\<close>, calling \<open>set_origin(g)\<close> a second time, on
  the site the first call left, ends as the first call did (returning, or raising the
  same error) and leaves that site as it was: the origin, which is \<open>g\<close>, and the \<open>enu\<close>
  of every telescope are what they were after the first call.
\<close>

theorem set_origin_idempotent:
  "set_origin pm (Some g) (snd (set_origin pm (Some g) st)) = set_origin pm (Some g) st
   \<and> origin (snd (set_origin pm (Some g) st)) = Some g"
  by (simp add: set_origin_Some update_all_enu_origin update_enu_loop_idem)

theorem set_origin_idempotent_witness:
  "set_origin pm_planar (Some (Geodetic 0 0 0)) site_anchored = (Inr (), site_anchored)
   \<and> set_origin pm_planar (Some (Geodetic 0 0 0)) (snd (set_origin pm_planar (Some (Geodetic 0 0 0)) site_two))
       = set_origin pm_planar (Some (Geodetic 0 0 0)) site_two"
proof -
  have "fst (set_origin pm_planar (Some (Geodetic 0 0 0)) site_unanchored) = Inr ()"
    by (simp add: set_origin_Some update_all_enu_def site_unanchored_def tel_T1_def pm_geodetic2enu_def
        split: prod.splits)
  then show ?thesis
    using set_origin_idempotent [where pm = pm_planar and g = "Geodetic 0 0 0" and st = site_unanchored]
      set_origin_idempotent [where pm = pm_planar and g = "Geodetic 0 0 0" and st = site_two]
    by (simp add: site_anchored_def prod_eq_iff)
qed

section \<open>Geodetic.as_array\<close>

text \<open>
  C9. For every \<open>Geodetic\<close> value, \<open>as_array\<close> raises \<open>AttributeError\<close> on the first
  attribute it reads, \<open>e\<close>, and so never returns an array.
\<close>

theorem Geodetic_as_array_raises:
  "Geodetic_as_array g = Inl (AttributeError ''e'') \<and> (\<forall>arr. Geodetic_as_array g \<noteq> Inr arr)"
  by (simp add: Geodetic_as_array_def Geodetic_getattr_def)

theorem Geodetic_as_array_raises_witness:
  "Geodetic_as_array (Geodetic 0 0 0) = Inl (AttributeError ''e'')"
  using Geodetic_as_array_raises [where g = "Geodetic 0 0 0"] by simp

section \<open>Constructing a planner\<close>





lemma TrajectoryPlanner_init_origin:
  "TrajectoryPlanner_init pm st = (Inr p, st') \<Longrightarrow> origin (site p) \<noteq> None \<and> site p = st'"
  by (auto simp: TrajectoryPlanner_init_def set_origin_None update_all_enu_def
      split: option.splits sum.splits prod.splits)

section \<open>Boresight\<close>

lemma old_arc_trajectory_nonempty:
  assumes "old_arc_trajectory_202404 pm self p r az el w N = Inr t"
  shows "arccenter t = None" and "1 \<le> N \<Longrightarrow> traj_enu t \<noteq> []"
proof -
  from old_arc_trajectory_Inr_iff [OF assms]
  obtain els where els: "linspace (el - w / 2) (el + w / 2) N = Inr els"
    and pts: "arc_points pm p az r els = Inr (traj_enu t)" and ac: "arccenter t = None"
    by blast
  show "arccenter t = None" by (rule ac)
  assume "1 \<le> N"
  then have "length els \<noteq> 0" using linspace_length [OF els] by simp
  then show "traj_enu t \<noteq> []" using arc_points_length [OF pts] by auto
qed

text \<open>
  C5. For a telescope with an \<open>enu\<close> position and a trajectory \<open>t\<close>, \<open>compute_boresight\<close>
  returns \<open>enu2aer\<close> of the displacement from the telescope to \<open>t.arccenter\<close> when the
  arc centre is present, and to the arithmetic mean of the points of \<open>t\<close> when it is
  absent (and \<open>t\<close> has a point). A trajectory returned by \<open>old_arc_trajectory_202404\<close>
  has no arc centre, so for \<open>N \<ge> 1\<close> its boresight is the view of the mean point.
\<close>

theorem compute_boresight_target:
  assumes "enu telescope = Some tel"
  shows "let cnt = real (length (traj_enu t));
             mean_e = sum_list (map fst (traj_enu t)) / cnt;
             mean_n = sum_list (map (fst \<circ> snd) (traj_enu t)) / cnt;
             mean_u = sum_list (map (snd \<circ> snd) (traj_enu t)) / cnt
         in (\<forall>c. arccenter t = Some c \<longrightarrow>
               compute_boresight pm telescope t =
                 Inr (Some (AER (enu2aer pm (enu_e c - enu_e tel) (enu_n c - enu_n tel)
                                   (enu_u c - enu_u tel)))))
          \<and> (arccenter t = None \<and> traj_enu t \<noteq> [] \<longrightarrow>
               compute_boresight pm telescope t =
                 Inr (Some (AER (enu2aer pm (mean_e - enu_e tel) (mean_n - enu_n tel)
                                   (mean_u - enu_u tel)))))
          \<and> (old_arc_trajectory_202404 pm self poi_enu r az el w N = Inr t \<and> 1 \<le> N \<longrightarrow>
               arccenter t = None
             \<and> compute_boresight pm telescope t =
                 Inr (Some (AER (enu2aer pm (mean_e - enu_e tel) (mean_n - enu_n tel)
                                   (mean_u - enu_u tel)))))"
proof -
  have present: "\<And>c. arccenter t = Some c \<Longrightarrow>
      compute_boresight pm telescope t =
        Inr (Some (AER (enu2aer pm (enu_e c - enu_e tel) (enu_n c - enu_n tel) (enu_u c - enu_u tel))))"
    using assms by (simp add: compute_boresight_def telescope_to_target_aer_def)
  have absent: "arccenter t = None \<Longrightarrow> traj_enu t \<noteq> [] \<Longrightarrow>
      compute_boresight pm telescope t =
        Inr (Some (AER (enu2aer pm
          (sum_list (map fst (traj_enu t)) / real (length (traj_enu t)) - enu_e tel)
          (sum_list (map (fst \<circ> snd) (traj_enu t)) / real (length (traj_enu t)) - enu_n tel)
          (sum_list (map (snd \<circ> snd) (traj_enu t)) / real (length (traj_enu t)) - enu_u tel))))"
    using assms by (simp add: compute_boresight_def telescope_to_target_aer_def mean_axis0_def)
  show ?thesis
    unfolding Let_def
  proof (intro conjI allI impI)
    fix c
    assume "arccenter t = Some c"
    then show "compute_boresight pm telescope t =
        Inr (Some (AER (enu2aer pm (enu_e c - enu_e tel) (enu_n c - enu_n tel) (enu_u c - enu_u tel))))"
      by (rule present)
  next
    assume "arccenter t = None \<and> traj_enu t \<noteq> []"
    then show "compute_boresight pm telescope t =
        Inr (Some (AER (enu2aer pm
          (sum_list (map fst (traj_enu t)) / real (length (traj_enu t)) - enu_e tel)
          (sum_list (map (fst \<circ> snd) (traj_enu t)) / real (length (traj_enu t)) - enu_n tel)
          (sum_list (map (snd \<circ> snd) (traj_enu t)) / real (length (traj_enu t)) - enu_u tel))))"
      using absent by blast
  next
    assume "old_arc_trajectory_202404 pm self poi_enu r az el w N = Inr t \<and> 1 \<le> N"
    then show "arccenter t = None"
      using old_arc_trajectory_nonempty(1) by blast
  next
    assume a: "old_arc_trajectory_202404 pm self poi_enu r az el w N = Inr t \<and> 1 \<le> N"
    then have "arccenter t = None" and "traj_enu t \<noteq> []"
      using old_arc_trajectory_nonempty [of pm self poi_enu r az el w N t] by blast+
    then show "compute_boresight pm telescope t =
        Inr (Some (AER (enu2aer pm
          (sum_list (map fst (traj_enu t)) / real (length (traj_enu t)) - enu_e tel)
          (sum_list (map (fst \<circ> snd) (traj_enu t)) / real (length (traj_enu t)) - enu_n tel)
          (sum_list (map (snd \<circ> snd) (traj_enu t)) / real (length (traj_enu t)) - enu_u tel))))"
      by (rule absent)
  qed
qed

theorem compute_boresight_target_witness:
  "(\<exists>t. old_arc_trajectory_202404 pm_planar planner_anchored (ENU 1000 0 0) 1000 90 10 10 3 = Inr t
      \<and> arccenter t = None
      \<and> compute_boresight pm_planar (tel_T1\<lparr>enu := Some (ENU 0 0 0)\<rparr>) t =
          Inr (Some (AER (enu2aer pm_planar
            (sum_list (map fst (traj_enu t)) / real (length (traj_enu t)) - 0)
            (sum_list (map (fst \<circ> snd) (traj_enu t)) / real (length (traj_enu t)) - 0)
            (sum_list (map (snd \<circ> snd) (traj_enu t)) / real (length (traj_enu t)) - 0)))))
   \<and> compute_boresight pm_planar (tel_T1\<lparr>enu := Some (ENU 0 0 0)\<rparr>)
        \<lparr>traj_enu = [(1, 2, 3)], yaw = [0], pitch = [0], npoints = 1,
         arccenter = Some (ENU 5 6 7), traj_geodetic = None, traj_poi = None,
         traj_landing_site = None, curveradius = None, plot_boresight = Some False\<rparr>
       = Inr (Some (AER (enu2aer pm_planar (5 - 0) (6 - 0) (7 - 0))))"
proof -
  have anchored: "enu (tel_T1\<lparr>enu := Some (ENU 0 0 0)\<rparr>) = Some (ENU 0 0 0)" by simp
  obtain els where els: "linspace (10 - 10 / 2) (10 + 10 / 2) 3 = Inr els"
    using linspace_total [of 3] by fastforce
  have h1: "abs (lat (Geodetic 0 0 0)) \<le> 90" by simp
  have h2: "(0::real) \<le> 1000" by simp
  from old_arc_trajectory_Inr [OF planner_anchored_origin h1 h2 els, of pm_planar "ENU 1000 0 0" 90]
  obtain t where t: "old_arc_trajectory_202404 pm_planar planner_anchored (ENU 1000 0 0) 1000 90 10 10 3 = Inr t"
    by blast
  have n: "(1::int) \<le> 3" by simp
  from compute_boresight_target [OF anchored, where t = t and pm = pm_planar and self = planner_anchored
      and poi_enu = "ENU 1000 0 0" and r = 1000 and az = 90 and el = 10 and w = 10 and N = 3] t n
  have 1: "arccenter t = None
      \<and> compute_boresight pm_planar (tel_T1\<lparr>enu := Some (ENU 0 0 0)\<rparr>) t =
          Inr (Some (AER (enu2aer pm_planar
            (sum_list (map fst (traj_enu t)) / real (length (traj_enu t)) - 0)
            (sum_list (map (fst \<circ> snd) (traj_enu t)) / real (length (traj_enu t)) - 0)
            (sum_list (map (snd \<circ> snd) (traj_enu t)) / real (length (traj_enu t)) - 0))))"
    by (simp add: Let_def)
  from compute_boresight_target [OF anchored, where pm = pm_planar and t =
      "\<lparr>traj_enu = [(1, 2, 3)], yaw = [0], pitch = [0], npoints = 1,
         arccenter = Some (ENU 5 6 7), traj_geodetic = None, traj_poi = None,
         traj_landing_site = None, curveradius = None, plot_boresight = Some False\<rparr>"]
  have 2: "compute_boresight pm_planar (tel_T1\<lparr>enu := Some (ENU 0 0 0)\<rparr>)
        \<lparr>traj_enu = [(1, 2, 3)], yaw = [0], pitch = [0], npoints = 1,
         arccenter = Some (ENU 5 6 7), traj_geodetic = None, traj_poi = None,
         traj_landing_site = None, curveradius = None, plot_boresight = Some False\<rparr>
       = Inr (Some (AER (enu2aer pm_planar (5 - 0) (6 - 0) (7 - 0))))"
    by (simp add: Let_def)
  from t 1 2 show ?thesis by blast
qed

end
